theory Spec2Isabelle
  imports Complex_Main
begin

section \<open>Data model\<close>

text \<open>
  The repository holds several generations of one liquidity bot: a monolithic
  script (state file, rebalance, mint, full rebalance and life cycle in one file), a
  modular rewrite (\<^verbatim>\<open>src/actions\<close>, \<^verbatim>\<open>src/utils\<close>) and an event-driven scheduler
  that reacts to new blocks.  Every function below is a translation of one source
  function.  Where two generations define a function of the same name, the monolithic
  one keeps the plain name and the modular one carries the suffix \<open>_actions\<close>.

  Asynchronous functions become functions that return their outcome together with the
  list of external calls they issued, in order.  A thrown value is \<open>Inl e\<close>, a
  normal return \<open>Inr v\<close>.  What the ledger, the SDK and the other collaborators
  answer is not decided by the program, so it is an input: a record with one field per
  call site.  JavaScript doubles are idealised as exact rationals; no theorem below
  depends on how a double rounds.
\<close>

datatype error = Error string | TypeError string

datatype token = USDC | WETH

datatype spender = NPM | ROUTER

datatype npm_call =
    DecreaseLiquidityCall string nat
  | CollectCall string
  | BurnCall string

datatype action =
    GetNetwork
  | Allowance token spender
  | Approve token spender
  | BalanceOf token
  | NpmBalanceOf
  | TokenOfOwnerByIndex nat
  | Positions string
  | DecreaseLiquidity string nat
  | Collect string
  | Burn string
  | Multicall "npm_call list"
  | Slot0
  | Liquidity
  | ExactInputSingle token token nat nat
  | Mint int int nat nat nat nat
  | SaveState string int
  | Sleep int
  | LoadState
  | CheckHealthAndPanic string
  | SendEmailAlert string string
  | ScanLocalOrphans
  | AdjustHedge nat string
  | ExecuteFullRebalance string

text \<open>
  \<open>ExactInputSingle tokenIn tokenOut amountIn amountOutMinimum\<close> is a swap
  submitted to the router, \<open>Mint tickLower tickUpper amount0Desired amount1Desired
  amount0Min amount1Min\<close> a mint submitted to the position manager, and
  \<open>SaveState tokenId lastCheck\<close> the write of the state file by \<^verbatim>\<open>saveState\<close>
  (\<open>lastCheck\<close> is the \<^verbatim>\<open>Date.now()\<close> it stamps).  Console output is not
  modelled.  The calls that change the ledger or the state file:
\<close>

fun mutating :: "action \<Rightarrow> bool" where
  "mutating (Approve _ _) = True"
| "mutating (DecreaseLiquidity _ _) = True"
| "mutating (Collect _) = True"
| "mutating (Burn _) = True"
| "mutating (Multicall _) = True"
| "mutating (ExactInputSingle _ _ _ _) = True"
| "mutating (Mint _ _ _ _ _ _) = True"
| "mutating (SaveState _ _) = True"
| "mutating (CheckHealthAndPanic _) = True"
| "mutating (AdjustHedge _ _) = True"
| "mutating (ExecuteFullRebalance _) = True"
| "mutating (ScanLocalOrphans) = True"
| "mutating _ = False"

text \<open>The calls that move the position or the two asset balances: exit, swap, mint.\<close>

fun positionAction :: "action \<Rightarrow> bool" where
  "positionAction (DecreaseLiquidity _ _) = True"
| "positionAction (Collect _) = True"
| "positionAction (Burn _) = True"
| "positionAction (Multicall _) = True"
| "positionAction (ExactInputSingle _ _ _ _) = True"
| "positionAction (Mint _ _ _ _ _ _) = True"
| "positionAction _ = False"

fun isSwap :: "action \<Rightarrow> bool" where
  "isSwap (ExactInputSingle _ _ _ _) = True"
| "isSwap _ = False"

fun isMint :: "action \<Rightarrow> bool" where
  "isMint (Mint _ _ _ _ _ _) = True"
| "isMint _ = False"

fun isSaveState :: "action \<Rightarrow> bool" where
  "isSaveState (SaveState _ _) = True"
| "isSaveState _ = False"

subsection \<open>Outcomes with a call trace\<close>

type_synonym 'a io = "(error + 'a) \<times> action list"

text \<open>\<open>call a r\<close>: the external call \<open>a\<close> is issued and answers \<open>r\<close>.\<close>

definition call :: "action \<Rightarrow> error + 'a \<Rightarrow> 'a io" where
  "call a r = (r, [a])"

definition returns :: "'a \<Rightarrow> 'a io" where
  "returns v = (Inr v, [])"

definition throw :: "error \<Rightarrow> 'a io" where
  "throw e = (Inl e, [])"

text \<open>Sequencing (\<^verbatim>\<open>await\<close> then continue): a failure skips the continuation.\<close>

definition andThen :: "'a io \<Rightarrow> ('a \<Rightarrow> 'b io) \<Rightarrow> 'b io" where
  "andThen m f =
     (case m of
        (Inl e, tr) \<Rightarrow> (Inl e, tr)
      | (Inr v, tr) \<Rightarrow> (case f v of (r, tr') \<Rightarrow> (r, tr @ tr')))"

text \<open>\<^verbatim>\<open>try { m } catch (e) { h(e) }\<close>.\<close>

definition tryCatch :: "'a io \<Rightarrow> (error \<Rightarrow> 'a io) \<Rightarrow> 'a io" where
  "tryCatch m h =
     (case m of
        (Inl e, tr) \<Rightarrow> (case h e of (r, tr') \<Rightarrow> (r, tr @ tr'))
      | (Inr v, tr) \<Rightarrow> (Inr v, tr))"

text \<open>
  \<^verbatim>\<open>Promise.all([a, b])\<close>: both calls are issued; the result fails when one of them
  fails (with the first call's error when both do).
\<close>

definition promiseAll2 :: "'a io \<Rightarrow> 'b io \<Rightarrow> ('a \<times> 'b) io" where
  "promiseAll2 m1 m2 =
     (case (fst m1, fst m2) of
        (Inl e, _) \<Rightarrow> (Inl e, snd m1 @ snd m2)
      | (Inr _, Inl e) \<Rightarrow> (Inl e, snd m1 @ snd m2)
      | (Inr a, Inr b) \<Rightarrow> (Inr (a, b), snd m1 @ snd m2))"

subsection \<open>The retry harness (\<^verbatim>\<open>withRetry\<close>, \<^verbatim>\<open>waitWithTimeout\<close>)\<close>

text \<open>
  \<^verbatim>\<open>withRetry(operation, retries = MAX_RETRIES)\<close>.  The operation is a thunk with
  effects: a state transformer that fails or returns.  The log records every
  invocation of the operation and every \<^verbatim>\<open>sleep(delay)\<close>.  \<open>MAX_RETRIES\<close> is a
  constant of the configuration and a parameter here.
\<close>

datatype retry_event = Invoked | Slept int

fun withRetry ::
  "nat \<Rightarrow> ('s \<Rightarrow> (error + 'a) \<times> 's) \<Rightarrow> nat \<Rightarrow> 's \<Rightarrow> ((error + 'a) \<times> 's) \<times> retry_event list"
where
  "withRetry MAX_RETRIES operation retries s =
     (case operation s of
        (Inr v, s') \<Rightarrow> ((Inr v, s'), [Invoked])
      | (Inl e, s') \<Rightarrow>
          (if retries > 0 then
             (let delay = 1000 * (int MAX_RETRIES - int retries + 1);
                  rest = withRetry MAX_RETRIES operation (retries - 1) s'
              in (fst rest, Invoked # Slept delay # snd rest))
           else ((Inl e, s'), [Invoked])))"

declare withRetry.simps [simp del]

text \<open>
  An operation whose successive invocations answer \<open>script 0\<close>, \<open>script 1\<close>, ...:
  the state is the number of invocations so far.
\<close>

definition scripted :: "(nat \<Rightarrow> error + 'a) \<Rightarrow> nat \<Rightarrow> (error + 'a) \<times> nat" where
  "scripted script k = (script k, Suc k)"

text \<open>
  \<^verbatim>\<open>waitWithTimeout(tx, timeoutMs)\<close> races \<^verbatim>\<open>tx.wait()\<close> against a timer.  Which of the
  two settles first is the input.
\<close>

datatype 'r waited = Resolved "'r option" | Rejected error | TimerFirst

definition waitWithTimeout :: "'r waited \<Rightarrow> error + 'r" where
  "waitWithTimeout w =
     (case w of
        TimerFirst \<Rightarrow> Inl (Error ''TIMEOUT'')
      | Rejected e \<Rightarrow> Inl e
      | Resolved None \<Rightarrow> Inl (Error ''Tx dropped or failed'')
      | Resolved (Some receipt) \<Rightarrow> Inr receipt)"

subsection \<open>Range computation of \<^verbatim>\<open>executeFullRebalance\<close>\<close>

definition MIN_TICK :: int where "MIN_TICK = - 887272"
definition MAX_TICK :: int where "MAX_TICK = 887272"
definition WIDTH :: int where "WIDTH = 2000"

text \<open>
  \<^verbatim>\<open>Math.floor(a / b)\<close> and \<^verbatim>\<open>Math.ceil(a / b)\<close> on integers, for \<open>b \<noteq> 0\<close>
  (a zero \<open>b\<close> gives an infinity or NaN in JavaScript and 0 here; the theorems
  assume a positive tick spacing).
\<close>

definition floorDiv :: "int \<Rightarrow> int \<Rightarrow> int" where
  "floorDiv a b = a div b"

definition ceilDiv :: "int \<Rightarrow> int \<Rightarrow> int" where
  "ceilDiv a b = - ((- a) div b)"

text \<open>The safety clamp, the collapse check, the second clamp and the final swap.\<close>

definition clampNormalize :: "int \<Rightarrow> int \<times> int \<Rightarrow> int \<times> int" where
  "clampNormalize tickSpace p =
    (let tickLower0 = fst p;
         tickUpper0 = snd p;
         tickLower1 = (if tickLower0 < MIN_TICK then ceilDiv MIN_TICK tickSpace * tickSpace
                       else tickLower0);
         tickUpper1 = (if tickUpper0 > MAX_TICK then floorDiv MAX_TICK tickSpace * tickSpace
                       else tickUpper0);
         tickUpper2 = (if tickLower1 = tickUpper1 then tickUpper1 + tickSpace else tickUpper1);
         tickUpper3 = (if tickUpper2 > MAX_TICK then floorDiv MAX_TICK tickSpace * tickSpace
                       else tickUpper2);
         tickLower3 = (if tickUpper2 > MAX_TICK then tickUpper3 - tickSpace else tickLower1)
     in if tickLower3 > tickUpper3 then (tickUpper3, tickLower3) else (tickLower3, tickUpper3))"

definition computeRange :: "int \<Rightarrow> int \<Rightarrow> int \<times> int" where
  "computeRange newCurrentTick tickSpace =
     clampNormalize tickSpace
       (floorDiv (newCurrentTick - WIDTH) tickSpace * tickSpace,
        floorDiv (newCurrentTick + WIDTH) tickSpace * tickSpace)"

subsection \<open>The event-driven scheduler (block listener and \<^verbatim>\<open>onNewBlock\<close>)\<close>

text \<open>The fields of \<^verbatim>\<open>npm.positions(tokenId)\<close> that the program reads.\<close>

record position =
  pos_liquidity :: nat
  pos_tickLower :: int
  pos_tickUpper :: int

text \<open>The three module-level variables of the scheduler.\<close>

record scheduler =
  isProcessing :: bool
  lastHedgeTime :: int
  isSafeMode :: bool

definition HEDGE_CHECK_INTERVAL_MS :: int where
  "HEDGE_CHECK_INTERVAL_MS = 60 * 1000"

text \<open>
  What one run of \<^verbatim>\<open>onNewBlock\<close> observes.  \<^verbatim>\<open>loadState\<close>, \<^verbatim>\<open>scanLocalOrphans\<close>,
  \<^verbatim>\<open>executeFullRebalance\<close> of \<^verbatim>\<open>src/actions\<close>, the hedge manager and the mail alert
  are imported by the scheduler from modules whose source is not part of the
  repository files; each is an external call here, answered by this record.
  \<open>blk_now\<close> is the \<^verbatim>\<open>Date.now()\<close> read before the interval check, \<open>blk_nowAfter\<close>
  the one stored into \<^verbatim>\<open>lastHedgeTime\<close>; \<open>blk_lpEthAmount\<close> is the WETH amount the SDK
  computes for the position.
\<close>

record block_env =
  blk_tokenId :: string
  blk_slot0 :: "error + int"
  blk_liquidity :: "error + nat"
  blk_executeFullRebalance :: "error + unit"
  blk_checkHealthAndPanic :: "error + bool"
  blk_sendEmailAlert :: "error + unit"
  blk_now :: int
  blk_positions :: "error + position"
  blk_scanLocalOrphans :: "error + unit"
  blk_lpEthAmount :: nat
  blk_adjustHedge :: "error + unit"
  blk_nowAfter :: int

text \<open>
  \<^verbatim>\<open>onNewBlock\<close>.  It assigns to \<^verbatim>\<open>lastHedgeTime\<close> and \<^verbatim>\<open>isSafeMode\<close> only as its
  last step before returning, so a run that throws leaves the variables as they were:
  the result is the scheduler's variables after a normal return.
\<close>

definition onNewBlock :: "block_env \<Rightarrow> scheduler \<Rightarrow> scheduler io" where
  "onNewBlock env s =
     andThen (call LoadState (Inr (blk_tokenId env))) (\<lambda>tokenId.
       if tokenId = [] \<or> tokenId = ''0'' then
         andThen (promiseAll2 (call Slot0 (blk_slot0 env)) (call Liquidity (blk_liquidity env))) (\<lambda>_.
         andThen (call (ExecuteFullRebalance ''0'') (blk_executeFullRebalance env)) (\<lambda>_.
         returns (s\<lparr>lastHedgeTime := 0\<rparr>)))
       else
         andThen (call (CheckHealthAndPanic tokenId) (blk_checkHealthAndPanic env)) (\<lambda>isSafe.
         if \<not> isSafe then
           andThen (call (SendEmailAlert ''Bot Stopped'' ''Entered SAFE MODE after panic exit.'')
                      (blk_sendEmailAlert env)) (\<lambda>_.
           returns (s\<lparr>isSafeMode := True\<rparr>))
         else if blk_now env - lastHedgeTime s < HEDGE_CHECK_INTERVAL_MS then
           returns s
         else
           andThen (promiseAll2 (call Slot0 (blk_slot0 env)) (call Liquidity (blk_liquidity env))) (\<lambda>sl.
           let currentTick = fst sl in
           andThen (call (Positions tokenId) (blk_positions env)) (\<lambda>pos.
           if pos_liquidity pos = 0 then
             andThen (call (SendEmailAlert ''CRITICAL: Position Closed.'' (''ID: '' @ tokenId))
                        (blk_sendEmailAlert env)) (\<lambda>_.
             andThen (call ScanLocalOrphans (blk_scanLocalOrphans env)) (\<lambda>_.
             returns s))
           else
             let tl = pos_tickLower pos; tu = pos_tickUpper pos in
             if currentTick < tl \<or> currentTick > tu then
               andThen (call (ExecuteFullRebalance tokenId) (blk_executeFullRebalance env)) (\<lambda>_.
               returns (s\<lparr>lastHedgeTime := blk_nowAfter env\<rparr>))
             else
               andThen (call (AdjustHedge (blk_lpEthAmount env) tokenId) (blk_adjustHedge env)) (\<lambda>_.
               returns (s\<lparr>lastHedgeTime := blk_nowAfter env\<rparr>))))))"

text \<open>
  The listener registered by \<^verbatim>\<open>setupEventListeners\<close>.  JavaScript runs it up to its
  first \<^verbatim>\<open>await\<close> without interruption; other block events are delivered while the
  awaited \<^verbatim>\<open>onNewBlock\<close> is pending.  So the listener is two atomic steps: the arrival
  of a block (the two guards and \<^verbatim>\<open>isProcessing = true\<close>), and the settling of the
  pending \<^verbatim>\<open>onNewBlock\<close> (\<^verbatim>\<open>catch\<close> logs the error, \<^verbatim>\<open>finally\<close> resets the guard).
  \<open>inFlight\<close> is not a variable of the program: it counts the calls of \<^verbatim>\<open>onNewBlock\<close>
  that have started and not settled.  A run that never settles is a run with no
  settling event.  \<open>Reconnect\<close> is the provider's reconnect callback, which calls
  \<^verbatim>\<open>setupEventListeners\<close> again: the old listener is removed and the same listener is
  registered, the module variables are not touched.
\<close>

record runtime =
  sched :: scheduler
  inFlight :: nat

datatype event = Block int | Settle block_env | Reconnect

definition blockArrives :: "int \<Rightarrow> runtime \<Rightarrow> runtime \<times> action list" where
  "blockArrives blockNumber rt =
     (if isSafeMode (sched rt) then (rt, [])
      else if isProcessing (sched rt) then (rt, [])
      else (rt\<lparr>sched := (sched rt)\<lparr>isProcessing := True\<rparr>, inFlight := inFlight rt + 1\<rparr>, []))"

definition evaluationSettles :: "block_env \<Rightarrow> runtime \<Rightarrow> runtime \<times> action list" where
  "evaluationSettles env rt =
     (if inFlight rt = 0 then (rt, [])
      else
        (let r = onNewBlock env (sched rt);
             s' = (case fst r of Inl e \<Rightarrow> sched rt | Inr s1 \<Rightarrow> s1)
         in (rt\<lparr>sched := s'\<lparr>isProcessing := False\<rparr>, inFlight := inFlight rt - 1\<rparr>, snd r)))"

fun step :: "event \<Rightarrow> runtime \<Rightarrow> runtime \<times> action list" where
  "step (Block blockNumber) rt = blockArrives blockNumber rt"
| "step (Settle env) rt = evaluationSettles env rt"
| "step Reconnect rt = (rt, [])"

fun run :: "event list \<Rightarrow> runtime \<Rightarrow> runtime \<times> action list" where
  "run [] rt = (rt, [])"
| "run (ev # evs) rt =
     (let r1 = step ev rt; r2 = run evs (fst r1) in (fst r2, snd r1 @ snd r2))"

definition initialRuntime :: runtime where
  "initialRuntime =
     \<lparr>sched = \<lparr>isProcessing = False, lastHedgeTime = 0, isSafeMode = False\<rparr>, inFlight = 0\<rparr>"


subsection \<open>The state file (\<^verbatim>\<open>loadState\<close>, \<^verbatim>\<open>saveState\<close>) and token identifiers\<close>

record botState =
  tokenId :: string
  lastCheck :: int

text \<open>
  The file \<^verbatim>\<open>bot_state.json\<close>: absent, present but not parseable, or holding a state.
  (A file that parses is taken to hold a record of the shape \<^verbatim>\<open>BotState\<close>; reading and
  writing the local file are taken not to fail otherwise.)
\<close>

datatype stateFile = Missing | Unreadable | Stored botState

definition loadState :: "stateFile \<Rightarrow> botState" where
  "loadState file =
     (case file of
        Stored st \<Rightarrow> st
      | _ \<Rightarrow> \<lparr>tokenId = ''0'', lastCheck = 0\<rparr>)"

definition saveState :: "string \<Rightarrow> int \<Rightarrow> unit io" where
  "saveState newId now = call (SaveState newId now) (Inr ())"

text \<open>The state file after the calls of a trace: each \<^verbatim>\<open>saveState\<close> overwrites it.\<close>

fun fileAfter :: "stateFile \<Rightarrow> action list \<Rightarrow> stateFile" where
  "fileAfter file [] = file"
| "fileAfter file (SaveState t n # tr) = fileAfter (Stored \<lparr>tokenId = t, lastCheck = n\<rparr>) tr"
| "fileAfter file (_ # tr) = fileAfter file tr"

text \<open>\<^verbatim>\<open>bigint.toString()\<close>: the decimal numeral of a token identifier.\<close>

fun showNat :: "nat \<Rightarrow> string" where
  "showNat n =
     (if n < 10 then [''0123456789'' ! n]
      else showNat (n div 10) @ [''0123456789'' ! (n mod 10)])"

declare showNat.simps [simp del]

subsection \<open>The SDK's pool object\<close>

text \<open>
  What the program reads from the Uniswap SDK's \<^verbatim>\<open>Pool\<close> and \<^verbatim>\<open>Position\<close> objects.  The
  price curve and the liquidity mathematics belong to the SDK, so the quote, the
  prices and the mint amounts are fields: \<open>token0PriceSignificant6\<close> is
  \<^verbatim>\<open>parseFloat(token0Price.toSignificant(6))\<close>, \<open>token0Price\<close> the exact fraction of raw
  amounts behind \<^verbatim>\<open>token0Price.quote\<close>, \<open>getOutputAmount\<close> the quoted output of a swap
  of a raw input amount of a token, \<open>positionFromAmounts tickLower tickUpper amount0
  amount1\<close> the result of \<^verbatim>\<open>Position.fromAmounts\<close> with its \<^verbatim>\<open>mintAmounts\<close> and
  \<^verbatim>\<open>mintAmountsWithSlippage(SLIPPAGE_TOLERANCE)\<close>.  The pool's two tokens are USDC and
  WETH, in the order of their addresses.
\<close>

record sdk_position =
  mintAmount0 :: nat
  mintAmount1 :: nat
  slippageAmount0 :: nat
  slippageAmount1 :: nat

record pool =
  token0_is_WETH :: bool
  tickCurrent :: int
  tickSpacing :: int
  token0PriceSignificant6 :: rat
  token1PriceSignificant6 :: rat
  token0Price :: rat
  token1Price :: rat
  getOutputAmount :: "token \<Rightarrow> nat \<Rightarrow> error + nat"
  positionFromAmounts :: "int \<Rightarrow> int \<Rightarrow> nat \<Rightarrow> nat \<Rightarrow> error + sdk_position"

text \<open>A computation of the SDK: it may throw, it calls nothing.\<close>

definition sdk :: "error + 'a \<Rightarrow> 'a io" where
  "sdk r = (r, [])"

subsection \<open>The monolithic bot: recovery, approvals, rebalance, mint, full rebalance, life cycle\<close>

record orphan_env =
  npmBalanceOf_r :: "error + nat"
  tokenOfOwnerByIndex_r :: "nat \<Rightarrow> error + nat"

definition findOrphanedPosition :: "orphan_env \<Rightarrow> string io" where
  "findOrphanedPosition env =
     andThen (call NpmBalanceOf (npmBalanceOf_r env)) (\<lambda>balance.
       if balance > 0 then
         (let lastIndex = balance - 1 in
          andThen (call (TokenOfOwnerByIndex lastIndex) (tokenOfOwnerByIndex_r env lastIndex))
            (\<lambda>foundId. returns (showNat foundId)))
       else returns ''0'')"

record approve_env =
  allowance_r :: "token \<Rightarrow> spender \<Rightarrow> error + nat"
  approve_r :: "token \<Rightarrow> spender \<Rightarrow> error + unit"

text \<open>
  \<^verbatim>\<open>checkAndApprove\<close>; \<open>approve_r\<close> answers the submission of \<^verbatim>\<open>approve\<close> and the wait
  for it.  Its \<^verbatim>\<open>catch\<close> logs and throws the error again.
\<close>

definition checkAndApprove :: "approve_env \<Rightarrow> token \<Rightarrow> spender \<Rightarrow> unit io" where
  "checkAndApprove env tok sp =
     andThen (call (Allowance tok sp) (allowance_r env tok sp)) (\<lambda>allowance.
       if allowance = 0 then call (Approve tok sp) (approve_r env tok sp)
       else returns ())"

definition approveAll :: "approve_env \<Rightarrow> unit io" where
  "approveAll env =
     andThen (checkAndApprove env USDC NPM) (\<lambda>_.
     andThen (checkAndApprove env WETH NPM) (\<lambda>_.
     andThen (checkAndApprove env USDC ROUTER) (\<lambda>_.
     checkAndApprove env WETH ROUTER)))"

text \<open>
  \<^verbatim>\<open>rebalancePortfolio\<close>.  \<open>usdcDeviation\<close> is the value \<^verbatim>\<open>usdcDiff\<close>;
  \<open>toFixedUnits d x\<close> is \<^verbatim>\<open>parseUnits(x.toFixed(d), d)\<close> for \<open>x \<ge> 0\<close> (rounding to \<open>d\<close>
  decimals); \<open>minAmountOut e\<close> is the quotient of
  \<^verbatim>\<open>expectedOutput.multiply(new Percent(1).subtract(new Percent(50, 10_000)))\<close>, which the
  SDK computes on fractions: \<open>1/1 - 50/10000 = (1 * 10000 - 50 * 1) / (1 * 10000)\<close>.
  \<open>reb_swap\<close> answers the submission of the swap and the wait for it.
\<close>

record wallet_env =
  reb_balUSDC :: "error + nat"
  reb_balWETH :: "error + nat"
  reb_swap :: "error + unit"

definition priceWethInUsdc :: "pool \<Rightarrow> rat" where
  "priceWethInUsdc configuredPool =
     (if token0_is_WETH configuredPool then token0PriceSignificant6 configuredPool
      else token1PriceSignificant6 configuredPool)"

definition usdcDeviation :: "pool \<Rightarrow> nat \<Rightarrow> nat \<Rightarrow> rat" where
  "usdcDeviation configuredPool balUSDC balWETH =
     (let valUSDC = of_nat balUSDC / 10 ^ 6;
          valWETH = of_nat balWETH / 10 ^ 18;
          totalValueUSDC = valUSDC + valWETH * priceWethInUsdc configuredPool;
          targetValue = totalValueUSDC / 2
      in valUSDC - targetValue)"

definition toFixedUnits :: "nat \<Rightarrow> rat \<Rightarrow> nat" where
  "toFixedUnits d x = nat \<lfloor>x * 10 ^ d + 1 / 2\<rfloor>"

definition minAmountOut :: "nat \<Rightarrow> nat" where
  "minAmountOut expectedOutput = (expectedOutput * (1 * 10000 - 50 * 1)) div (1 * 10000)"

definition rebalancePortfolio :: "wallet_env \<Rightarrow> pool \<Rightarrow> unit io" where
  "rebalancePortfolio env configuredPool =
     andThen (call (BalanceOf USDC) (reb_balUSDC env)) (\<lambda>balUSDC.
     andThen (call (BalanceOf WETH) (reb_balWETH env)) (\<lambda>balWETH.
     let usdcDiff = usdcDeviation configuredPool balUSDC balWETH in
     if \<bar>usdcDiff\<bar> < 2 then returns ()
     else if usdcDiff > 0 then
       (let amountInRaw = toFixedUnits 6 usdcDiff in
        andThen (sdk (getOutputAmount configuredPool USDC amountInRaw)) (\<lambda>expectedOutput.
        call (ExactInputSingle USDC WETH amountInRaw (minAmountOut expectedOutput))
          (reb_swap env)))
     else
       (let wethToSellVal = \<bar>usdcDiff\<bar> / priceWethInUsdc configuredPool;
            amountInRaw = toFixedUnits 18 (wethToSellVal * (99 / 100)) in
        andThen (sdk (getOutputAmount configuredPool WETH amountInRaw)) (\<lambda>expectedOutput.
        call (ExactInputSingle WETH USDC amountInRaw (minAmountOut expectedOutput))
          (reb_swap env)))))"

text \<open>
  Receipts.  A log carries its topics and its data words; a topic is named by the
  event signature whose hash it is.  \<^verbatim>\<open>AbiCoder.decode(["uint256"], data)[0]\<close> reads the
  first word and throws on data that has none.
\<close>

record receipt_log =
  topics :: "string list"
  logData :: "nat list"

definition MINT_EVENT :: string where
  "MINT_EVENT = ''Mint(uint256,address,address,uint24,int24,int24,uint128,uint256,uint256)''"

definition isMintLog :: "receipt_log \<Rightarrow> bool" where
  "isMintLog l = (case topics l of [] \<Rightarrow> False | t # _ \<Rightarrow> t = MINT_EVENT)"

definition decodeUint256 :: "nat list \<Rightarrow> error + nat" where
  "decodeUint256 ws = (case ws of [] \<Rightarrow> Inl (Error ''BUFFER_OVERRUN'') | w # _ \<Rightarrow> Inr w)"

text \<open>
  \<^verbatim>\<open>mintMaxLiquidity\<close> of the monolithic bot.  \<open>mint_receipt\<close> answers the submission of
  the mint and the wait for it.  The source reads \<^verbatim>\<open>event.data\<close> without a check, so a
  missing event is the engine's TypeError for a property read on \<^verbatim>\<open>undefined\<close>.
\<close>

record mint_env =
  mint_balUSDC :: "error + nat"
  mint_balWETH :: "error + nat"
  mint_receipt :: "error + receipt_log list"

definition mintMaxLiquidity :: "mint_env \<Rightarrow> pool \<Rightarrow> int \<Rightarrow> int \<Rightarrow> string io" where
  "mintMaxLiquidity env configuredPool tickLower tickUpper =
     andThen (call (BalanceOf USDC) (mint_balUSDC env)) (\<lambda>balUSDC.
     andThen (call (BalanceOf WETH) (mint_balWETH env)) (\<lambda>balWETH.
     andThen (sdk (positionFromAmounts configuredPool tickLower tickUpper balWETH balUSDC))
       (\<lambda>position.
     andThen (call (Mint tickLower tickUpper (mintAmount0 position) (mintAmount1 position) 0 0)
                (mint_receipt env)) (\<lambda>receipt.
     case find isMintLog receipt of
       None \<Rightarrow> throw (TypeError ''Cannot read properties of undefined (reading data)'')
     | Some event \<Rightarrow>
         andThen (sdk (decodeUint256 (logData event))) (\<lambda>newId. returns (showNat newId))))))"

text \<open>
  \<^verbatim>\<open>executeFullRebalance\<close>: the exit of the old position inside its own
  \<^verbatim>\<open>try\<close>/\<^verbatim>\<open>catch\<close> (the handler logs a warning and returns), then the rebalance, the
  fresh read of the tick, the range, the mint and the save.  \<open>exitOldPosition\<close> is the
  first block of the source function (its step 1, the burn of the old position, if one
  exists), named here so that theorems can speak of its calls.
\<close>

record exit_env =
  exit_positions :: "error + position"
  exit_decreaseLiquidity :: "error + unit"
  exit_collect :: "error + unit"
  exit_burn :: "error + unit"

record rebalance_env =
  env_exit :: exit_env
  env_wallet :: wallet_env
  env_newSlot0 :: "error + int"
  env_mint :: mint_env
  env_now :: int

definition exitOldPosition :: "exit_env \<Rightarrow> string \<Rightarrow> unit io" where
  "exitOldPosition env oldTokenId =
     (if oldTokenId \<noteq> ''0'' then
        tryCatch
          (andThen (call (Positions oldTokenId) (exit_positions env)) (\<lambda>pos.
           let liquidity = pos_liquidity pos in
           andThen
             (if liquidity > 0 then
                call (DecreaseLiquidity oldTokenId liquidity) (exit_decreaseLiquidity env)
              else returns ()) (\<lambda>_.
           andThen (call (Collect oldTokenId) (exit_collect env)) (\<lambda>_.
           call (Burn oldTokenId) (exit_burn env)))))
          (\<lambda>e. returns ())
      else returns ())"

definition executeFullRebalance :: "rebalance_env \<Rightarrow> pool \<Rightarrow> string \<Rightarrow> unit io" where
  "executeFullRebalance env configuredPool oldTokenId =
     andThen (exitOldPosition (env_exit env) oldTokenId) (\<lambda>_.
     andThen (rebalancePortfolio (env_wallet env) configuredPool) (\<lambda>_.
     andThen (call Slot0 (env_newSlot0 env)) (\<lambda>newCurrentTick.
     let range = computeRange newCurrentTick (tickSpacing configuredPool) in
     andThen (mintMaxLiquidity (env_mint env) configuredPool (fst range) (snd range))
       (\<lambda>newTokenId.
     saveState newTokenId (env_now env)))))"

text \<open>
  \<^verbatim>\<open>runLifeCycle\<close> of the monolithic bot.  \<open>cyc_pool\<close> is the SDK pool built from the
  values read; its current tick is the tick read.  \<open>cyc_now\<close> is the \<^verbatim>\<open>Date.now()\<close> of
  the save of a recovered identifier.
\<close>

record cycle_env =
  cyc_getNetwork :: "error + unit"
  cyc_approve :: approve_env
  cyc_slot0 :: "error + int"
  cyc_liquidity :: "error + nat"
  cyc_pool :: pool
  cyc_orphan :: orphan_env
  cyc_now :: int
  cyc_positions :: "error + position"
  cyc_rebalance :: rebalance_env

definition runLifeCycle :: "cycle_env \<Rightarrow> stateFile \<Rightarrow> unit io" where
  "runLifeCycle env file =
     andThen (call GetNetwork (cyc_getNetwork env)) (\<lambda>_.
     andThen (approveAll (cyc_approve env)) (\<lambda>_.
     andThen (promiseAll2 (call Slot0 (cyc_slot0 env)) (call Liquidity (cyc_liquidity env)))
       (\<lambda>sl.
     let currentTick = fst sl;
         configuredPool = (cyc_pool env)\<lparr>tickCurrent := currentTick\<rparr>;
         storedId = tokenId (loadState file) in
     if storedId = ''0'' then
       andThen (findOrphanedPosition (cyc_orphan env)) (\<lambda>recoveredId.
       andThen (if recoveredId \<noteq> ''0'' then saveState recoveredId (cyc_now env) else returns ())
         (\<lambda>_.
       executeFullRebalance (cyc_rebalance env) configuredPool ''0''))
     else
       tryCatch
         (andThen (call (Positions storedId) (cyc_positions env)) (\<lambda>pos.
          if pos_liquidity pos = 0 \<and> pos_tickLower pos = 0 then
            executeFullRebalance (cyc_rebalance env) configuredPool ''0''
          else
            (let isOutOfRange =
               (currentTick < pos_tickLower pos \<or> currentTick > pos_tickUpper pos) in
             if isOutOfRange then
               executeFullRebalance (cyc_rebalance env) configuredPool storedId
             else returns ())))
         (\<lambda>e. returns ()))))"

subsection \<open>The modular bot (\<^verbatim>\<open>src/actions\<close>): exit, rebalance, mint\<close>

text \<open>
  \<^verbatim>\<open>withRetry(() => read)\<close> with the default budget: the k-th attempt of the read is
  answered by \<open>script k\<close>; every attempt is a call of the trace, every sleep a pause.
\<close>

definition retrying :: "nat \<Rightarrow> action \<Rightarrow> (nat \<Rightarrow> error + 'a) \<Rightarrow> 'a io" where
  "retrying MAX_RETRIES a script =
     (let r = withRetry MAX_RETRIES (scripted script) MAX_RETRIES 0
      in (fst (fst r), map (\<lambda>ev. case ev of Invoked \<Rightarrow> a | Slept d \<Rightarrow> Sleep d) (snd r)))"

text \<open>
  A submission either fails or gives a pending transaction, whose wait is raced against
  the timer by \<^verbatim>\<open>waitWithTimeout\<close>.
\<close>

record actions_env =
  act_balanceOf :: "token \<Rightarrow> nat \<Rightarrow> error + nat"
  act_positions :: "nat \<Rightarrow> error + position"
  act_multicall :: "error + unit waited"
  act_swap :: "error + unit waited"
  act_mint :: "error + receipt_log list waited"

definition getBalance_actions :: "nat \<Rightarrow> actions_env \<Rightarrow> token \<Rightarrow> nat io" where
  "getBalance_actions MAX_RETRIES env tok =
     retrying MAX_RETRIES (BalanceOf tok) (act_balanceOf env tok)"

text \<open>\<^verbatim>\<open>atomicExitPosition\<close>; its \<^verbatim>\<open>catch\<close> logs and throws the error again.\<close>

definition atomicExitPosition :: "nat \<Rightarrow> actions_env \<Rightarrow> string \<Rightarrow> unit io" where
  "atomicExitPosition MAX_RETRIES env exitId =
     andThen (retrying MAX_RETRIES (Positions exitId) (act_positions env)) (\<lambda>pos.
     let liquidity = pos_liquidity pos;
         calls = (if liquidity > 0 then [DecreaseLiquidityCall exitId liquidity] else [])
                 @ [CollectCall exitId, BurnCall exitId] in
     andThen (call (Multicall calls) (act_multicall env)) (\<lambda>tx.
     andThen (sdk (waitWithTimeout tx)) (\<lambda>_. returns ())))"

text \<open>
  \<^verbatim>\<open>rebalancePortfolio\<close> of \<^verbatim>\<open>src/actions\<close>, on the SDK's exact fractions.
  \<open>quotient x\<close> is \<^verbatim>\<open>x.quotient\<close>, \<open>toExact d x\<close> the number \<^verbatim>\<open>parseFloat(x.toExact())\<close>
  for a currency of \<open>d\<close> decimals.
\<close>

definition quotient :: "rat \<Rightarrow> nat" where
  "quotient x = nat \<lfloor>x\<rfloor>"

definition toExact :: "nat \<Rightarrow> rat \<Rightarrow> rat" where
  "toExact d x = of_nat (quotient x) / 10 ^ d"

text \<open>
  \<open>wethValueInUsdc\<close> is \<^verbatim>\<open>priceWethToUsdc.quote(wethAmount)\<close>; \<open>usdcToSell\<close> and
  \<open>wethToSell\<close> are the value \<^verbatim>\<open>amountToSell\<close> of the branch that sells USDC and of the
  branch that sells WETH.
\<close>

definition wethValueInUsdc :: "pool \<Rightarrow> nat \<Rightarrow> rat" where
  "wethValueInUsdc configuredPool balWETH =
     (let priceWethToUsdc =
        (if token0_is_WETH configuredPool then token0Price configuredPool
         else token1Price configuredPool)
      in priceWethToUsdc * of_nat balWETH)"

definition usdcToSell :: "pool \<Rightarrow> nat \<Rightarrow> nat \<Rightarrow> rat" where
  "usdcToSell configuredPool balUSDC balWETH =
     (let diff = of_nat balUSDC - wethValueInUsdc configuredPool balWETH in diff / 2)"

definition wethToSell :: "pool \<Rightarrow> nat \<Rightarrow> nat \<Rightarrow> rat" where
  "wethToSell configuredPool balUSDC balWETH =
     (let diffValueInUsdc = wethValueInUsdc configuredPool balWETH - of_nat balUSDC;
          amountToSellValue = diffValueInUsdc / 2;
          priceUsdcToWeth =
            (if \<not> token0_is_WETH configuredPool then token0Price configuredPool
             else token1Price configuredPool)
      in priceUsdcToWeth * amountToSellValue)"

definition rebalancePortfolio_actions :: "nat \<Rightarrow> actions_env \<Rightarrow> pool \<Rightarrow> unit io" where
  "rebalancePortfolio_actions MAX_RETRIES env configuredPool =
     andThen (getBalance_actions MAX_RETRIES env USDC) (\<lambda>balUSDC.
     andThen (getBalance_actions MAX_RETRIES env WETH) (\<lambda>balWETH.
     if of_nat balUSDC > wethValueInUsdc configuredPool balWETH then
       (let amountToSell = usdcToSell configuredPool balUSDC balWETH in
        if toExact 6 amountToSell < 5 then returns ()
        else
          andThen (call (ExactInputSingle USDC WETH (quotient amountToSell) 0) (act_swap env))
            (\<lambda>tx.
          andThen (sdk (waitWithTimeout tx)) (\<lambda>_. returns ())))
     else
       (let amountToSell = wethToSell configuredPool balUSDC balWETH in
        if toExact 18 amountToSell < 2 / 1000 then returns ()
        else
          andThen (call (ExactInputSingle WETH USDC (quotient amountToSell) 0) (act_swap env))
            (\<lambda>tx.
          andThen (sdk (waitWithTimeout tx)) (\<lambda>_. returns ())))))"

text \<open>
  \<^verbatim>\<open>mintMaxLiquidity\<close> of \<^verbatim>\<open>src/actions\<close>, with the check of the parsed event;
  \<open>mintEventMissing\<close> is the error it throws when the receipt has no Mint event.
\<close>

definition mintEventMissing :: error where
  "mintEventMissing = Error ''Mint successful but failed to parse Token ID from logs.''"

definition mintMaxLiquidity_actions ::
  "nat \<Rightarrow> actions_env \<Rightarrow> pool \<Rightarrow> int \<Rightarrow> int \<Rightarrow> string io" where
  "mintMaxLiquidity_actions MAX_RETRIES env configuredPool tickLower tickUpper =
     andThen (getBalance_actions MAX_RETRIES env USDC) (\<lambda>balUSDC.
     andThen (getBalance_actions MAX_RETRIES env WETH) (\<lambda>balWETH.
     andThen (sdk (positionFromAmounts configuredPool tickLower tickUpper balWETH balUSDC))
       (\<lambda>position.
     andThen (call (Mint tickLower tickUpper (mintAmount0 position) (mintAmount1 position)
                      (slippageAmount0 position) (slippageAmount1 position))
                (act_mint env)) (\<lambda>tx.
     andThen (sdk (waitWithTimeout tx)) (\<lambda>receipt.
     case find isMintLog receipt of
       None \<Rightarrow> throw mintEventMissing
     | Some event \<Rightarrow>
         andThen (sdk (decodeUint256 (logData event))) (\<lambda>newId. returns (showNat newId)))))))"


subsection \<open>Observations on logs and runs\<close>

text \<open>The number of invocations and the delays slept, read off a retry log.\<close>

definition invocations :: "retry_event list \<Rightarrow> nat" where
  "invocations evs = length (filter (\<lambda>ev. ev = Invoked) evs)"

definition delays :: "retry_event list \<Rightarrow> int list" where
  "delays evs = concat (map (\<lambda>ev. case ev of Slept d \<Rightarrow> [d] | Invoked \<Rightarrow> []) evs)"

text \<open>The state an operation has reached after \<open>k\<close> invocations from \<open>s\<close>.\<close>

definition stateAfter :: "('s \<Rightarrow> (error + 'a) \<times> 's) \<Rightarrow> nat \<Rightarrow> 's \<Rightarrow> 's" where
  "stateAfter operation k s = ((\<lambda>x. snd (operation x)) ^^ k) s"

text \<open>
  The invariant of the listener: at most one \<^verbatim>\<open>onNewBlock\<close> is pending, the guard is set
  exactly while one is, and none is pending once the safe-mode flag is set.
\<close>

definition singleFlight :: "runtime \<Rightarrow> bool" where
  "singleFlight rt \<longleftrightarrow>
     inFlight rt \<le> 1
     \<and> (isProcessing (sched rt) \<longleftrightarrow> inFlight rt = 1)
     \<and> (isSafeMode (sched rt) \<longrightarrow> inFlight rt = 0)"

subsection \<open>Concrete inputs\<close>

text \<open>
  A tracked position \<open>7\<close> whose health check passes, one whose health check fails, and
  one whose health check throws.
\<close>

definition healthyBlock :: block_env where
  "healthyBlock =
     \<lparr>blk_tokenId = ''7'', blk_slot0 = Inr 500, blk_liquidity = Inr 1000,
      blk_executeFullRebalance = Inr (), blk_checkHealthAndPanic = Inr True,
      blk_sendEmailAlert = Inr (), blk_now = 1000000,
      blk_positions = Inr \<lparr>pos_liquidity = 5, pos_tickLower = 100, pos_tickUpper = 200\<rparr>,
      blk_scanLocalOrphans = Inr (), blk_lpEthAmount = 3, blk_adjustHedge = Inr (),
      blk_nowAfter = 1000500\<rparr>"

definition panicBlock :: block_env where
  "panicBlock = healthyBlock\<lparr>blk_checkHealthAndPanic := Inr False\<rparr>"

definition throwingBlock :: block_env where
  "throwingBlock = healthyBlock\<lparr>blk_checkHealthAndPanic := Inl (Error ''rpc down'')\<rparr>"

text \<open>
  A pool at 2000 USDC per WETH with WETH as token0 and tick spacing 10, whose quote
  follows that price; the same pool with a quote of one raw unit.
\<close>

definition examplePool :: pool where
  "examplePool =
     \<lparr>token0_is_WETH = True, tickCurrent = 0, tickSpacing = 10,
      token0PriceSignificant6 = 2000, token1PriceSignificant6 = 1 / 2000,
      token0Price = 2000 / 10 ^ 12, token1Price = 10 ^ 12 / 2000,
      getOutputAmount =
        (\<lambda>tok amount. Inr (if tok = USDC then amount * 500000000 else amount div 500000000)),
      positionFromAmounts =
        (\<lambda>tickLower tickUpper amount0 amount1.
           Inr \<lparr>mintAmount0 = amount0, mintAmount1 = amount1,
                slippageAmount0 = amount0 * 995 div 1000,
                slippageAmount1 = amount1 * 995 div 1000\<rparr>)\<rparr>"


text \<open>
  Wallets: 103 USDC with 0.05 WETH (a deviation of 1.50 USDC), and 4 USDC with no WETH
  (a deviation of 2 USDC).
\<close>

definition balancedWallet :: wallet_env where
  "balancedWallet =
     \<lparr>reb_balUSDC = Inr 103000000, reb_balWETH = Inr 50000000000000000, reb_swap = Inr ()\<rparr>"


text \<open>
  A mint whose receipt carries the Mint event of token 8, and one whose receipt carries
  only another event.
\<close>

definition mintWithEvent :: mint_env where
  "mintWithEvent =
     \<lparr>mint_balUSDC = Inr 103000000, mint_balWETH = Inr 50000000000000000,
      mint_receipt = Inr [\<lparr>topics = [''Transfer(address,address,uint256)''], logData = []\<rparr>,
                           \<lparr>topics = [MINT_EVENT], logData = [8]\<rparr>]\<rparr>"

definition mintWithoutEvent :: mint_env where
  "mintWithoutEvent =
     mintWithEvent\<lparr>mint_receipt :=
       Inr [\<lparr>topics = [''Transfer(address,address,uint256)''], logData = []\<rparr>]\<rparr>"

text \<open>
  A full rebalance in which the exit of the old position fails at
  \<^verbatim>\<open>decreaseLiquidity\<close> and everything after it succeeds; the same with a receipt that
  lacks the Mint event.
\<close>

definition exitFails :: rebalance_env where
  "exitFails =
     \<lparr>env_exit =
        \<lparr>exit_positions = Inr \<lparr>pos_liquidity = 5, pos_tickLower = 100, pos_tickUpper = 200\<rparr>,
         exit_decreaseLiquidity = Inl (Error ''execution reverted''),
         exit_collect = Inr (), exit_burn = Inr ()\<rparr>,
      env_wallet = balancedWallet, env_newSlot0 = Inr 0, env_mint = mintWithEvent,
      env_now = 1700000000000\<rparr>"

definition eventMissing :: rebalance_env where
  "eventMissing = exitFails\<lparr>env_mint := mintWithoutEvent\<rparr>"

text \<open>
  A life cycle of an account that owns the tokens 41 and 42 (in the order of the
  enumeration) and whose USDC allowance for the position manager is zero.
\<close>

definition orphanCycle :: cycle_env where
  "orphanCycle =
     \<lparr>cyc_getNetwork = Inr (),
      cyc_approve =
        \<lparr>allowance_r = (\<lambda>tok sp. Inr (if tok = USDC \<and> sp = NPM then 0 else 1000)),
         approve_r = (\<lambda>tok sp. Inr ())\<rparr>,
      cyc_slot0 = Inr 0, cyc_liquidity = Inr 1000, cyc_pool = examplePool,
      cyc_orphan =
        \<lparr>npmBalanceOf_r = Inr 2,
         tokenOfOwnerByIndex_r =
           (\<lambda>i. if i < 2 then Inr ([41, 42] ! i) else Inl (Error ''index out of bounds''))\<rparr>,
      cyc_now = 1699999999000,
      cyc_positions = Inl (Error ''not read''),
      cyc_rebalance = exitFails\<rparr>"

text \<open>
  The modular bot's collaborators: reads that fail once and then answer (103 USDC,
  0.05 WETH), a multicall that is rejected, a swap that settles and a mint that settles
  with a receipt lacking the Mint event; and the same with 100 USDC and no WETH, read
  at the first attempt.
\<close>

definition flakyActions :: actions_env where
  "flakyActions =
     \<lparr>act_balanceOf =
        (\<lambda>tok k. if k = 0 then Inl (Error ''rpc down'')
                  else Inr (if tok = USDC then 103000000 else 50000000000000000)),
      act_positions =
        (\<lambda>k. Inr \<lparr>pos_liquidity = 5, pos_tickLower = 100, pos_tickUpper = 200\<rparr>),
      act_multicall = Inl (Error ''execution reverted''),
      act_swap = Inr (Resolved (Some ())),
      act_mint =
        Inr (Resolved (Some [\<lparr>topics = [''Transfer(address,address,uint256)''],
                               logData = []\<rparr>]))\<rparr>"

definition usdcHeavyActions :: actions_env where
  "usdcHeavyActions =
     flakyActions\<lparr>act_balanceOf := (\<lambda>tok k. Inr (if tok = USDC then 100000000 else 0))\<rparr>"

text \<open>An operation that fails twice and then returns 7; one that always fails.\<close>

definition failsTwice :: "nat \<Rightarrow> error + nat" where
  "failsTwice k = (if k < 2 then Inl (Error ''rpc down'') else Inr 7)"

definition alwaysFails :: "nat \<Rightarrow> error + nat" where
  "alwaysFails k = Inl (Error ''rpc down'')"

section \<open>Theorems\<close>

lemmas io_defs =
  andThen_def call_def returns_def throw_def tryCatch_def promiseAll2_def sdk_def

subsection \<open>Range computation\<close>









subsection \<open>The retry harness\<close>

lemma withRetry_0:
  "withRetry M operation 0 s =
     (case operation s of
        (Inr v, s') \<Rightarrow> ((Inr v, s'), [Invoked])
      | (Inl e, s') \<Rightarrow> ((Inl e, s'), [Invoked]))"
  by (subst withRetry.simps) (simp split: prod.splits sum.splits)

lemma withRetry_Suc:
  "withRetry M operation (Suc r) s =
     (case operation s of
        (Inr v, s') \<Rightarrow> ((Inr v, s'), [Invoked])
      | (Inl e, s') \<Rightarrow>
          (fst (withRetry M operation r s'),
           Invoked # Slept (1000 * (int M - int (Suc r) + 1)) # snd (withRetry M operation r s')))"
  by (subst withRetry.simps) (simp add: Let_def split: prod.splits sum.splits)

lemma withRetry_success:
  "operation s = (Inr v, s') \<Longrightarrow> withRetry M operation retries s = ((Inr v, s'), [Invoked])"
  by (cases retries) (simp_all add: withRetry_0 withRetry_Suc)

lemma stateAfter_Suc:
  "operation s = (out, s') \<Longrightarrow> stateAfter operation (Suc k) s = stateAfter operation k s'"
  unfolding stateAfter_def funpow_Suc_right o_def by simp

text \<open>
  One run of \<open>withRetry\<close>: it makes \<open>n\<close> invocations, between one and \<open>retries + 1\<close>;
  it sleeps before each retry; it returns what the last invocation returned; every
  earlier invocation failed; and a failure is returned only after \<open>retries + 1\<close>
  invocations.
\<close>

lemma withRetry_run:
  "\<exists>n. 1 \<le> n \<and> n \<le> retries + 1
     \<and> invocations (snd (withRetry M operation retries s)) = n
     \<and> delays (snd (withRetry M operation retries s))
         = map (\<lambda>i. 1000 * (int M - int retries + int i)) [1..<n]
     \<and> fst (withRetry M operation retries s) = operation (stateAfter operation (n - 1) s)
     \<and> (\<forall>k < n - 1. isl (fst (operation (stateAfter operation k s))))
     \<and> (isl (fst (fst (withRetry M operation retries s))) \<longrightarrow> n = retries + 1)"
proof (induction retries arbitrary: s)
  case 0
  obtain out s' where op: "operation s = (out, s')" by (cases "operation s")
  then show ?case
    by (cases out; intro exI[of _ 1])
       (simp_all add: withRetry_0 invocations_def delays_def stateAfter_def)
next
  case (Suc r)
  obtain out s' where op: "operation s = (out, s')" by (cases "operation s")
  show ?case
  proof (cases out)
    case (Inr v)
    with op withRetry_success[of operation s v s' M "Suc r"] show ?thesis
      by (intro exI[of _ 1]) (simp add: invocations_def delays_def stateAfter_def)
  next
    case (Inl e)
    from Suc.IH[of s'] obtain n where n: "1 \<le> n" "n \<le> r + 1"
      "invocations (snd (withRetry M operation r s')) = n"
      "delays (snd (withRetry M operation r s'))
         = map (\<lambda>i. 1000 * (int M - int r + int i)) [1..<n]"
      "fst (withRetry M operation r s') = operation (stateAfter operation (n - 1) s')"
      "\<forall>k < n - 1. isl (fst (operation (stateAfter operation k s')))"
      "isl (fst (fst (withRetry M operation r s'))) \<longrightarrow> n = r + 1"
      by blast
    have st: "\<And>k. stateAfter operation (Suc k) s = stateAfter operation k s'"
      using op by (rule stateAfter_Suc)
    have w: "withRetry M operation (Suc r) s =
      (fst (withRetry M operation r s'),
       Invoked # Slept (1000 * (int M - int (Suc r) + 1)) # snd (withRetry M operation r s'))"
      using op Inl by (simp add: withRetry_Suc)
    have d: "delays (snd (withRetry M operation (Suc r) s))
             = map (\<lambda>i. 1000 * (int M - int (Suc r) + int i)) [1..<Suc n]"
    proof -
      have a: "[1..<Suc n] = 1 # map Suc [1..<n]"
        using n(1) by (simp only: map_Suc_upt) (simp add: upt_conv_Cons)
      have b: "(\<lambda>i. 1000 * (int M - int (Suc r) + int (Suc i)))
               = (\<lambda>i. 1000 * (int M - int r + int i))"
        by (rule ext) simp
      have "delays (snd (withRetry M operation (Suc r) s))
            = 1000 * (int M - int (Suc r) + 1) # delays (snd (withRetry M operation r s'))"
        by (simp add: w delays_def)
      also have "\<dots> = 1000 * (int M - int (Suc r) + int 1)
                      # map (\<lambda>i. 1000 * (int M - int (Suc r) + int (Suc i))) [1..<n]"
        by (simp only: n(4) b) simp
      also have "\<dots> = map (\<lambda>i. 1000 * (int M - int (Suc r) + int i)) [1..<Suc n]"
        by (simp only: a list.map map_map o_def)
      finally show ?thesis .
    qed
    have prior: "\<forall>k < Suc n - 1. isl (fst (operation (stateAfter operation k s)))"
    proof (intro allI impI)
      fix k assume k: "k < Suc n - 1"
      show "isl (fst (operation (stateAfter operation k s)))"
      proof (cases k)
        case 0 then show ?thesis using op Inl by (simp add: stateAfter_def)
      next
        case (Suc j) then show ?thesis using n(6) k st by simp
      qed
    qed
    have res: "fst (withRetry M operation (Suc r) s)
               = operation (stateAfter operation (Suc n - 1) s)"
      using n(1,5) st[of "n - 1"] by (simp add: w)
    have inv: "invocations (snd (withRetry M operation (Suc r) s)) = Suc n"
      using n(3) by (simp add: w invocations_def)
    have last: "isl (fst (fst (withRetry M operation (Suc r) s))) \<longrightarrow> Suc n = Suc r + 1"
      using n(7) by (simp add: w)
    have bounds: "1 \<le> Suc n" "Suc n \<le> Suc r + 1" using n(2) by simp_all
    show ?thesis
      by (rule exI[of _ "Suc n"]) (intro conjI bounds inv d res prior last)
  qed
qed

text \<open>
  Claim C9 fails as it is stated, for every retry budget: with \<open>MAX_RETRIES = 3\<close> and
  a budget of 1, the delay before the first retry is 3000 ms, not 1000 ms.
\<close>

theorem withRetry_delay_counterexample:
  "snd (withRetry 3 (scripted alwaysFails) 1 0) = [Invoked, Slept 3000, Invoked]
   \<and> delays (snd (withRetry 3 (scripted alwaysFails) 1 0)) \<noteq> [1000 * 1]"
  by (simp add: delays_def scripted_def alwaysFails_def withRetry_0 withRetry_Suc
      eval_nat_numeral)

text \<open>
  Claim C9, amended: for every operation and retry budget, \<open>withRetry\<close> invokes the
  operation at least once and retries at most \<open>retries\<close> further times; the result is
  the result of the last invocation, which is the first one that succeeds when one
  does; the delay before the i-th retry is \<open>1000 * (MAX_RETRIES - retries + i)\<close>
  milliseconds, which is \<open>1000 * i\<close> when the budget is the default \<open>MAX_RETRIES\<close>;
  and when every attempt fails, \<open>retries + 1\<close> invocations were made and the error of
  the last one is returned as it is.
\<close>

theorem withRetry_contract:
  "(\<exists>n. 1 \<le> n \<and> n \<le> retries + 1
      \<and> invocations (snd (withRetry M operation retries s)) = n
      \<and> delays (snd (withRetry M operation retries s))
          = map (\<lambda>i. 1000 * (int M - int retries + int i)) [1..<n]
      \<and> fst (withRetry M operation retries s) = operation (stateAfter operation (n - 1) s)
      \<and> (\<forall>k < n - 1. isl (fst (operation (stateAfter operation k s))))
      \<and> (isl (fst (fst (withRetry M operation retries s))) \<longrightarrow> n = retries + 1))
   \<and> (\<exists>n. invocations (snd (withRetry M operation M s)) = n
      \<and> delays (snd (withRetry M operation M s)) = map (\<lambda>i. 1000 * int i) [1..<n])"
proof
  show "\<exists>n. 1 \<le> n \<and> n \<le> retries + 1
      \<and> invocations (snd (withRetry M operation retries s)) = n
      \<and> delays (snd (withRetry M operation retries s))
          = map (\<lambda>i. 1000 * (int M - int retries + int i)) [1..<n]
      \<and> fst (withRetry M operation retries s) = operation (stateAfter operation (n - 1) s)
      \<and> (\<forall>k < n - 1. isl (fst (operation (stateAfter operation k s))))
      \<and> (isl (fst (fst (withRetry M operation retries s))) \<longrightarrow> n = retries + 1)"
    by (rule withRetry_run)
next
  from withRetry_run[of M M operation s] obtain n where
    a: "invocations (snd (withRetry M operation M s)) = n" and
    b: "delays (snd (withRetry M operation M s))
          = map (\<lambda>i. 1000 * (int M - int M + int i)) [1..<n]"
    by blast
  have c: "(\<lambda>i. 1000 * (int M - int M + int i)) = (\<lambda>i. 1000 * int i)"
    by (rule ext) simp
  show "\<exists>n. invocations (snd (withRetry M operation M s)) = n
      \<and> delays (snd (withRetry M operation M s)) = map (\<lambda>i. 1000 * int i) [1..<n]"
    using a b unfolding c by (intro exI[of _ n]) simp
qed

text \<open>
  The theorem at \<open>MAX_RETRIES = 3\<close>: an operation that fails twice and then returns 7
  is invoked three times, with delays of 1000 and 2000 ms, and 7 is returned; an
  operation that always fails is invoked four times, with delays of 1000, 2000 and
  3000 ms, and its error is returned.
\<close>

theorem withRetry_contract_witness:
  "withRetry 3 (scripted failsTwice) 3 0
     = ((Inr 7, 3), [Invoked, Slept 1000, Invoked, Slept 2000, Invoked])
   \<and> invocations (snd (withRetry 3 (scripted failsTwice) 3 0)) = 3
   \<and> delays (snd (withRetry 3 (scripted failsTwice) 3 0)) = [1000, 2000]
   \<and> withRetry 3 (scripted alwaysFails) 3 0
     = ((Inl (Error ''rpc down''), 4),
        [Invoked, Slept 1000, Invoked, Slept 2000, Invoked, Slept 3000, Invoked])
   \<and> invocations (snd (withRetry 3 (scripted alwaysFails) 3 0)) = 4"
proof -
  have a: "withRetry 3 (scripted failsTwice) 3 0
     = ((Inr 7, 3), [Invoked, Slept 1000, Invoked, Slept 2000, Invoked])"
    by (simp add: scripted_def failsTwice_def withRetry_0 withRetry_Suc eval_nat_numeral)
  have b: "withRetry 3 (scripted alwaysFails) 3 0
     = ((Inl (Error ''rpc down''), 4),
        [Invoked, Slept 1000, Invoked, Slept 2000, Invoked, Slept 3000, Invoked])"
    by (simp add: scripted_def alwaysFails_def withRetry_0 withRetry_Suc eval_nat_numeral)
  have c: "invocations [Invoked, Slept 1000, Invoked, Slept 2000, Invoked] = 3"
    "delays [Invoked, Slept 1000, Invoked, Slept 2000, Invoked] = [1000, 2000]"
    "invocations [Invoked, Slept 1000, Invoked, Slept 2000, Invoked, Slept 3000, Invoked] = 4"
    by (simp_all add: invocations_def delays_def)
  note t = withRetry_contract[of 3 3 "scripted failsTwice" 0]
  show ?thesis using t unfolding a b snd_conv c by (intro conjI refl)
qed

subsection \<open>The scheduler\<close>

lemma onNewBlock_keeps_safe_mode:
  "fst (onNewBlock env s) = Inr s' \<Longrightarrow> isSafeMode s \<Longrightarrow> isSafeMode s'"
  by (auto simp: onNewBlock_def io_defs Let_def split: if_splits sum.splits prod.splits)

lemma singleFlight_step: "singleFlight rt \<Longrightarrow> singleFlight (fst (step ev rt))"
proof (cases ev)
  case (Block n)
  assume "singleFlight rt"
  then show ?thesis using Block by (auto simp: singleFlight_def blockArrives_def)
next
  case (Settle env)
  assume i: "singleFlight rt"
  show ?thesis
  proof (cases "inFlight rt = 0")
    case True
    then show ?thesis using i Settle by (simp add: evaluationSettles_def)
  next
    case False
    with i have "inFlight rt = 1" by (simp add: singleFlight_def)
    then show ?thesis using Settle
      by (simp add: evaluationSettles_def singleFlight_def Let_def)
  qed
next
  case Reconnect
  assume "singleFlight rt"
  then show ?thesis using Reconnect by simp
qed

lemma singleFlight_run: "singleFlight rt \<Longrightarrow> singleFlight (fst (run evs rt))"
  by (induction evs arbitrary: rt) (simp_all add: Let_def singleFlight_step)

lemma singleFlight_initial: "singleFlight initialRuntime"
  by (simp add: singleFlight_def initialRuntime_def)

lemma singleFlight_reachable: "singleFlight (fst (run evs initialRuntime))"
  by (rule singleFlight_run[OF singleFlight_initial])

lemma safe_mode_step:
  assumes "singleFlight rt" "isSafeMode (sched rt)"
  shows "step ev rt = (rt, [])"
proof (cases ev)
  case (Block n)
  then show ?thesis using assms by (simp add: blockArrives_def)
next
  case (Settle env)
  then show ?thesis using assms by (simp add: evaluationSettles_def singleFlight_def)
next
  case Reconnect
  then show ?thesis by simp
qed

lemma safe_mode_run:
  assumes "singleFlight rt" "isSafeMode (sched rt)"
  shows "run evs rt = (rt, [])"
  using assms by (induction evs) (simp_all add: safe_mode_step Let_def)

lemma safe_mode_kept_step:
  "isSafeMode (sched rt) \<Longrightarrow> isSafeMode (sched (fst (step ev rt)))"
  by (cases ev)
     (auto simp: blockArrives_def evaluationSettles_def Let_def onNewBlock_keeps_safe_mode
           split: sum.splits)

lemma safe_mode_kept_run:
  "isSafeMode (sched rt) \<Longrightarrow> isSafeMode (sched (fst (run evs rt)))"
  by (induction evs arbitrary: rt) (simp_all add: Let_def safe_mode_kept_step)

text \<open>
  Claim C1: a block trigger that arrives while the safe-mode flag is set returns at
  once: it issues no call at all (so no exit, swap, mint or state write) and changes
  nothing.  No step of the scheduler clears the flag: from any state with the flag
  set, the flag is set after every sequence of block arrivals, settlements and
  reconnects.  In a state the scheduler has reached from its start, such a sequence
  issues no call and leaves every variable as it is.
\<close>

theorem safe_mode_terminal:
  assumes "isSafeMode (sched rt)"
  shows "step (Block blockNumber) rt = (rt, [])
    \<and> isSafeMode (sched (fst (run evs rt)))
    \<and> (rt = fst (run before initialRuntime) \<longrightarrow> run evs rt = (rt, []))"
  using assms
  by (auto simp: blockArrives_def safe_mode_kept_run
           intro: safe_mode_run singleFlight_reachable)

text \<open>
  The theorem after a block whose health check fails: the flag is set, and two more
  blocks with a settlement issue no call.
\<close>

theorem safe_mode_terminal_witness:
  "isSafeMode (sched (fst (run [Block 1, Settle panicBlock] initialRuntime)))
   \<and> snd (run [Block 1, Settle panicBlock] initialRuntime)
       = [LoadState, CheckHealthAndPanic ''7'',
          SendEmailAlert ''Bot Stopped'' ''Entered SAFE MODE after panic exit.'']
   \<and> step (Block 2) (fst (run [Block 1, Settle panicBlock] initialRuntime))
       = (fst (run [Block 1, Settle panicBlock] initialRuntime), [])
   \<and> run [Block 2, Settle healthyBlock, Block 3]
         (fst (run [Block 1, Settle panicBlock] initialRuntime))
       = (fst (run [Block 1, Settle panicBlock] initialRuntime), [])"
proof -
  have r: "run [Block 1, Settle panicBlock] initialRuntime
     = (\<lparr>sched = \<lparr>isProcessing = False, lastHedgeTime = 0, isSafeMode = True\<rparr>, inFlight = 0\<rparr>,
        [LoadState, CheckHealthAndPanic ''7'',
         SendEmailAlert ''Bot Stopped'' ''Entered SAFE MODE after panic exit.''])"
    by (simp add: initialRuntime_def blockArrives_def evaluationSettles_def onNewBlock_def
        panicBlock_def healthyBlock_def io_defs Let_def)
  have s: "isSafeMode (sched (fst (run [Block 1, Settle panicBlock] initialRuntime)))"
    by (simp only: r fst_conv) simp
  from safe_mode_terminal[OF s, of 2 "[Block 2, Settle healthyBlock, Block 3]"
      "[Block 1, Settle panicBlock]"]
  have t: "step (Block 2) (fst (run [Block 1, Settle panicBlock] initialRuntime))
       = (fst (run [Block 1, Settle panicBlock] initialRuntime), [])"
    "run [Block 2, Settle healthyBlock, Block 3]
         (fst (run [Block 1, Settle panicBlock] initialRuntime))
       = (fst (run [Block 1, Settle panicBlock] initialRuntime), [])"
    by blast+
  have u: "snd (run [Block 1, Settle panicBlock] initialRuntime)
       = [LoadState, CheckHealthAndPanic ''7'',
          SendEmailAlert ''Bot Stopped'' ''Entered SAFE MODE after panic exit.'']"
    by (simp only: r snd_conv)
  show ?thesis by (intro conjI s t u)
qed

text \<open>
  Claim C6: in every state the scheduler reaches, at most one evaluation of
  \<^verbatim>\<open>onNewBlock\<close> is pending, and the guard \<^verbatim>\<open>isProcessing\<close> is set exactly while one is.
  A block that arrives while the guard is set changes nothing and issues nothing: it
  is dropped, there is no queue.  When the pending evaluation settles, by a return or
  by a throw, the guard is false and nothing is pending; and after an evaluation that
  threw, the next block starts an evaluation.
\<close>

theorem single_flight_guard:
  assumes "rt = fst (run evs initialRuntime)"
  shows "inFlight rt \<le> 1
    \<and> (isProcessing (sched rt) \<longleftrightarrow> inFlight rt = 1)
    \<and> (isProcessing (sched rt) \<longrightarrow> step (Block blockNumber) rt = (rt, []))
    \<and> (inFlight rt = 1 \<longrightarrow>
         \<not> isProcessing (sched (fst (step (Settle env) rt)))
         \<and> inFlight (fst (step (Settle env) rt)) = 0)
    \<and> (inFlight rt = 1 \<longrightarrow> isl (fst (onNewBlock env (sched rt))) \<longrightarrow>
         inFlight (fst (step (Block blockNumber) (fst (step (Settle env) rt)))) = 1)"
proof -
  have i: "singleFlight rt" unfolding assms by (rule singleFlight_reachable)
  have a: "inFlight rt \<le> 1" "isProcessing (sched rt) \<longleftrightarrow> inFlight rt = 1"
    "isSafeMode (sched rt) \<longrightarrow> inFlight rt = 0"
    using i by (simp_all add: singleFlight_def)
  have b: "isProcessing (sched rt) \<longrightarrow> step (Block blockNumber) rt = (rt, [])"
    by (simp add: blockArrives_def)
  have c: "inFlight rt = 1 \<longrightarrow>
         \<not> isProcessing (sched (fst (step (Settle env) rt)))
         \<and> inFlight (fst (step (Settle env) rt)) = 0"
    by (simp add: evaluationSettles_def Let_def)
  have d: "inFlight rt = 1 \<longrightarrow> isl (fst (onNewBlock env (sched rt))) \<longrightarrow>
         inFlight (fst (step (Block blockNumber) (fst (step (Settle env) rt)))) = 1"
    using a(3)
    by (auto simp: evaluationSettles_def blockArrives_def Let_def isl_def)
  show ?thesis using a(1,2) b c d by blast
qed

text \<open>
  The theorem on a run in which the first evaluation throws: the second block is
  dropped while the first evaluation is pending, the guard is released by the throw,
  and the third block starts an evaluation.
\<close>

theorem single_flight_guard_witness:
  "inFlight (fst (run [Block 1] initialRuntime)) = 1
   \<and> isProcessing (sched (fst (run [Block 1] initialRuntime)))
   \<and> step (Block 2) (fst (run [Block 1] initialRuntime))
       = (fst (run [Block 1] initialRuntime), [])
   \<and> isl (fst (onNewBlock throwingBlock (sched (fst (run [Block 1] initialRuntime)))))
   \<and> \<not> isProcessing (sched (fst (step (Settle throwingBlock)
                                       (fst (run [Block 1] initialRuntime)))))
   \<and> inFlight (fst (step (Settle throwingBlock) (fst (run [Block 1] initialRuntime)))) = 0
   \<and> inFlight (fst (step (Block 3)
        (fst (step (Settle throwingBlock) (fst (run [Block 1] initialRuntime)))))) = 1"
proof -
  have r: "fst (run [Block 1] initialRuntime)
           = \<lparr>sched = \<lparr>isProcessing = True, lastHedgeTime = 0, isSafeMode = False\<rparr>,
              inFlight = 1\<rparr>"
    by (simp add: initialRuntime_def blockArrives_def)
  have t: "isl (fst (onNewBlock throwingBlock (sched (fst (run [Block 1] initialRuntime)))))"
    unfolding r
    by (simp add: onNewBlock_def throwingBlock_def healthyBlock_def io_defs)
  from single_flight_guard[of "fst (run [Block 1] initialRuntime)" "[Block 1]" 2 throwingBlock]
    single_flight_guard[of "fst (run [Block 1] initialRuntime)" "[Block 1]" 3 throwingBlock]
    t r
  show ?thesis by simp
qed

text \<open>
  Claim C10: when a position is tracked, the health check passes and fewer than
  \<open>HEDGE_CHECK_INTERVAL_MS\<close> = 60000 ms have passed since \<^verbatim>\<open>lastHedgeTime\<close>,
  \<^verbatim>\<open>onNewBlock\<close> returns after the state load and the health check: it reads neither the
  pool nor the position, and calls neither the rebalance nor the hedge adjustment,
  whatever the price is; the scheduler's variables are unchanged.
\<close>

theorem hedge_interval_gate:
  assumes "blk_tokenId env \<noteq> []" "blk_tokenId env \<noteq> ''0''"
    and "blk_checkHealthAndPanic env = Inr True"
    and "blk_now env - lastHedgeTime s < HEDGE_CHECK_INTERVAL_MS"
  shows "onNewBlock env s = (Inr s, [LoadState, CheckHealthAndPanic (blk_tokenId env)])
    \<and> HEDGE_CHECK_INTERVAL_MS = 60000"
  using assms by (simp add: onNewBlock_def io_defs HEDGE_CHECK_INTERVAL_MS_def)

text \<open>
  The theorem 59999 ms after the last hedge, with the price (tick 500) outside the
  position's range \<open>[100, 200]\<close>: no rebalance is triggered.  One millisecond later the
  rebalance runs.
\<close>

theorem hedge_interval_gate_witness:
  "onNewBlock healthyBlock \<lparr>isProcessing = True, lastHedgeTime = 940001, isSafeMode = False\<rparr>
     = (Inr \<lparr>isProcessing = True, lastHedgeTime = 940001, isSafeMode = False\<rparr>,
        [LoadState, CheckHealthAndPanic ''7''])
   \<and> snd (onNewBlock healthyBlock
             \<lparr>isProcessing = True, lastHedgeTime = 940000, isSafeMode = False\<rparr>)
     = [LoadState, CheckHealthAndPanic ''7'', Slot0, Liquidity, Positions ''7'',
        ExecuteFullRebalance ''7'']"
proof -
  have h: "blk_tokenId healthyBlock \<noteq> []" "blk_tokenId healthyBlock \<noteq> ''0''"
    "blk_checkHealthAndPanic healthyBlock = Inr True"
    "blk_now healthyBlock
       - lastHedgeTime \<lparr>isProcessing = True, lastHedgeTime = 940001, isSafeMode = False\<rparr>
     < HEDGE_CHECK_INTERVAL_MS"
    by (simp_all add: healthyBlock_def HEDGE_CHECK_INTERVAL_MS_def)
  have l: "snd (onNewBlock healthyBlock
             \<lparr>isProcessing = True, lastHedgeTime = 940000, isSafeMode = False\<rparr>)
     = [LoadState, CheckHealthAndPanic ''7'', Slot0, Liquidity, Positions ''7'',
        ExecuteFullRebalance ''7'']"
    by (simp add: onNewBlock_def healthyBlock_def io_defs HEDGE_CHECK_INTERVAL_MS_def Let_def)
  from hedge_interval_gate[OF h] l show ?thesis by (simp add: healthyBlock_def)
qed


subsection \<open>Calls of the monolithic and of the modular bot\<close>

lemma andThen_ok: "fst m = Inr v \<Longrightarrow> andThen m f = (fst (f v), snd m @ snd (f v))"
  by (cases m) (simp add: andThen_def split: prod.splits)

lemma showNat_digit: "n < 10 \<Longrightarrow> showNat n = [''0123456789'' ! n]"
  by (subst showNat.simps) simp

lemma showNat_step:
  "\<not> n < 10 \<Longrightarrow> showNat n = showNat (n div 10) @ [''0123456789'' ! (n mod 10)]"
  by (subst showNat.simps) simp

lemma fileAfter_no_save: "filter isSaveState tr = [] \<Longrightarrow> fileAfter sf tr = sf"
  by (induction sf tr rule: fileAfter.induct) (simp_all split: if_splits)

lemma exitOldPosition_returns: "fst (exitOldPosition env old) = Inr ()"
  by (auto simp: exitOldPosition_def io_defs Let_def split: sum.splits prod.splits)

lemma exitOldPosition_no_save: "filter isSaveState (snd (exitOldPosition env old)) = []"
  by (auto simp: exitOldPosition_def io_defs Let_def split: sum.splits prod.splits)

lemma rebalancePortfolio_no_save: "filter isSaveState (snd (rebalancePortfolio env p)) = []"
  by (auto simp: rebalancePortfolio_def io_defs Let_def split: sum.splits prod.splits)

lemma mintMaxLiquidity_no_save: "filter isSaveState (snd (mintMaxLiquidity env p lo hi)) = []"
  by (auto simp: mintMaxLiquidity_def io_defs Let_def split: sum.splits prod.splits option.splits)

lemma executeFullRebalance_phases:
  "(fst (rebalancePortfolio (env_wallet env) p) = Inl e \<longrightarrow>
      executeFullRebalance env p old =
        (Inl e, snd (exitOldPosition (env_exit env) old) @ snd (rebalancePortfolio (env_wallet env) p)))
   \<and> (fst (rebalancePortfolio (env_wallet env) p) = Inr () \<longrightarrow> env_newSlot0 env = Inl e \<longrightarrow>
      executeFullRebalance env p old =
        (Inl e, snd (exitOldPosition (env_exit env) old) @ snd (rebalancePortfolio (env_wallet env) p)
                @ [Slot0]))
   \<and> (fst (rebalancePortfolio (env_wallet env) p) = Inr () \<longrightarrow> env_newSlot0 env = Inr t \<longrightarrow>
      fst (mintMaxLiquidity (env_mint env) p (fst (computeRange t (tickSpacing p)))
             (snd (computeRange t (tickSpacing p)))) = Inl e \<longrightarrow>
      executeFullRebalance env p old =
        (Inl e, snd (exitOldPosition (env_exit env) old) @ snd (rebalancePortfolio (env_wallet env) p)
                @ [Slot0]
                @ snd (mintMaxLiquidity (env_mint env) p (fst (computeRange t (tickSpacing p)))
                         (snd (computeRange t (tickSpacing p))))))
   \<and> (fst (rebalancePortfolio (env_wallet env) p) = Inr () \<longrightarrow> env_newSlot0 env = Inr t \<longrightarrow>
      fst (mintMaxLiquidity (env_mint env) p (fst (computeRange t (tickSpacing p)))
             (snd (computeRange t (tickSpacing p)))) = Inr newId \<longrightarrow>
      executeFullRebalance env p old =
        (Inr (), snd (exitOldPosition (env_exit env) old) @ snd (rebalancePortfolio (env_wallet env) p)
                @ [Slot0]
                @ snd (mintMaxLiquidity (env_mint env) p (fst (computeRange t (tickSpacing p)))
                         (snd (computeRange t (tickSpacing p))))
                @ [SaveState newId (env_now env)]))"
  using exitOldPosition_returns[of "env_exit env" old]
  by (auto simp: executeFullRebalance_def andThen_def call_def saveState_def Let_def
           split: sum.splits prod.splits)

lemma executeFullRebalance_failure_no_save:
  assumes "fst (executeFullRebalance env p old) = Inl e"
  shows "filter isSaveState (snd (executeFullRebalance env p old)) = []"
proof -
  note ph = executeFullRebalance_phases[of env p _ old]
  show ?thesis
  proof (cases "fst (rebalancePortfolio (env_wallet env) p)")
    case (Inl e1)
    with ph[of e1] show ?thesis
      by (simp add: exitOldPosition_no_save rebalancePortfolio_no_save)
  next
    case (Inr u)
    then have r: "fst (rebalancePortfolio (env_wallet env) p) = Inr ()" by simp
    show ?thesis
    proof (cases "env_newSlot0 env")
      case (Inl e2)
      with r ph[of e2] show ?thesis
        by (simp add: exitOldPosition_no_save rebalancePortfolio_no_save)
    next
      case (Inr t)
      show ?thesis
      proof (cases "fst (mintMaxLiquidity (env_mint env) p (fst (computeRange t (tickSpacing p)))
             (snd (computeRange t (tickSpacing p))))")
        case (Inl e3)
        with r Inr ph[of e3 t] show ?thesis
          by (simp add: exitOldPosition_no_save rebalancePortfolio_no_save mintMaxLiquidity_no_save)
      next
        case m: (Inr newId)
        with r Inr ph[of undefined t newId] assms show ?thesis by simp
      qed
    qed
  qed
qed


lemma withRetry_numeral:
  "withRetry M operation (numeral k) s =
     (case operation s of
        (Inr v, s') \<Rightarrow> ((Inr v, s'), [Invoked])
      | (Inl e, s') \<Rightarrow>
          (fst (withRetry M operation (pred_numeral k) s'),
           Invoked # Slept (1000 * (int M - int (numeral k) + 1))
             # snd (withRetry M operation (pred_numeral k) s')))"
  by (subst numeral_eq_Suc, subst withRetry_Suc) (simp only: numeral_eq_Suc)

lemma withRetry_log_shape:
  "set (snd (withRetry M operation retries s)) \<subseteq> insert Invoked (range Slept)"
proof (induction retries arbitrary: s)
  case 0
  show ?case by (auto simp: withRetry_0 split: prod.splits sum.splits)
next
  case (Suc r)
  show ?case
  proof (cases "operation s")
    case (Pair out s')
    show ?thesis
    proof (cases out)
      case (Inl e)
      with Pair Suc[of s'] show ?thesis by (auto simp: withRetry_Suc)
    next
      case (Inr v)
      with Pair show ?thesis by (simp add: withRetry_Suc)
    qed
  qed
qed

lemma retrying_trace: "set (snd (retrying M a script)) \<subseteq> insert a (range Sleep)"
  using withRetry_log_shape[of M "scripted script" M 0]
  by (auto simp: retrying_def Let_def split: retry_event.splits)

lemma retrying_read_only:
  assumes "\<not> mutating a" "\<not> isSwap a" "\<not> isMint a"
  shows "filter mutating (snd (retrying M a script)) = []"
    "filter isSwap (snd (retrying M a script)) = []"
    "filter isMint (snd (retrying M a script)) = []"
  using retrying_trace[of M a script] assms by (auto simp: filter_empty_conv)

lemma getBalance_read_only:
  "filter mutating (snd (getBalance_actions M env tok)) = []"
  "filter isSwap (snd (getBalance_actions M env tok)) = []"
  "filter isMint (snd (getBalance_actions M env tok)) = []"
  by (simp_all add: getBalance_actions_def retrying_read_only)





lemma balanced_dev: "usdcDeviation examplePool 103000000 50000000000000000 = 3 / 2"
  by (simp add: usdcDeviation_def priceWethInUsdc_def examplePool_def Let_def)

lemma flaky_balance:
  "getBalance_actions 3 flakyActions USDC = (Inr 103000000, [BalanceOf USDC, Sleep 1000, BalanceOf USDC])"
  "getBalance_actions 3 flakyActions WETH = (Inr 50000000000000000, [BalanceOf WETH, Sleep 1000, BalanceOf WETH])"
  by (simp_all add: getBalance_actions_def retrying_def flakyActions_def scripted_def
      withRetry_numeral withRetry_0 Let_def)



subsection \<open>The rebalance below its threshold\<close>



subsection \<open>The slippage bound of the rebalancing swap\<close>

lemma floor_rat_numeral: "\<lfloor>numeral a / numeral b :: rat\<rfloor> = numeral a div numeral b"
  by (metis floor_divide_of_int_eq of_int_numeral)

text \<open>
  In the modular bot every swap is submitted with a minimum output of zero: its
  \<^verbatim>\<open>rebalancePortfolio\<close> computes no quote.
\<close>

lemma rebalancePortfolio_actions_min_out_zero:
  assumes "ExactInputSingle tokenIn tokenOut amountIn amountOutMinimum
             \<in> set (snd (rebalancePortfolio_actions M aenv p))"
  shows "amountOutMinimum = 0"
proof -
  obtain ru tu where u: "getBalance_actions M aenv USDC = (ru, tu)"
    by (cases "getBalance_actions M aenv USDC")
  obtain rw tw where w: "getBalance_actions M aenv WETH = (rw, tw)"
    by (cases "getBalance_actions M aenv WETH")
  have f: "filter isSwap tu = []" "filter isSwap tw = []"
    using getBalance_read_only(2)[of M aenv USDC] getBalance_read_only(2)[of M aenv WETH] u w
    by simp_all
  then have g: "ExactInputSingle tokenIn tokenOut amountIn amountOutMinimum \<notin> set tu"
    "ExactInputSingle tokenIn tokenOut amountIn amountOutMinimum \<notin> set tw"
    by (auto simp: filter_empty_conv)
  show ?thesis
    using assms g unfolding rebalancePortfolio_actions_def u w
    by (auto simp: io_defs Let_def split: sum.splits prod.splits if_splits)
qed

text \<open>
  With 100 USDC and no WETH the modular bot sells 50 USDC with the minimum output 0.
\<close>

lemma usdcHeavy_swap:
  "rebalancePortfolio_actions 3 usdcHeavyActions examplePool
     = (Inr (), [BalanceOf USDC, BalanceOf WETH, ExactInputSingle USDC WETH 50000000 0])"
proof -
  have b: "getBalance_actions 3 usdcHeavyActions USDC = (Inr 100000000, [BalanceOf USDC])"
    "getBalance_actions 3 usdcHeavyActions WETH = (Inr 0, [BalanceOf WETH])"
    by (simp_all add: getBalance_actions_def retrying_def usdcHeavyActions_def flakyActions_def
        scripted_def withRetry_numeral Let_def)
  show ?thesis
    unfolding rebalancePortfolio_actions_def b
    by (simp add: usdcHeavyActions_def flakyActions_def examplePool_def wethValueInUsdc_def
        usdcToSell_def toExact_def quotient_def waitWithTimeout_def io_defs Let_def
        floor_rat_numeral)
qed




subsection \<open>A mint whose receipt lacks the Mint event\<close>

lemma flaky_mint:
  "mintMaxLiquidity_actions 3 flakyActions examplePool (- 2000) 2000
     = (Inl mintEventMissing,
        [BalanceOf USDC, Sleep 1000, BalanceOf USDC, BalanceOf WETH, Sleep 1000, BalanceOf WETH,
         Mint (- 2000) 2000 50000000000000000 103000000 49750000000000000 102485000])"
  unfolding mintMaxLiquidity_actions_def flaky_balance
  by (simp add: flakyActions_def examplePool_def waitWithTimeout_def isMintLog_def MINT_EVENT_def
      io_defs)

lemma eventMissing_run:
  "executeFullRebalance eventMissing examplePool ''7''
     = (Inl (TypeError ''Cannot read properties of undefined (reading data)''),
        [Positions ''7'', DecreaseLiquidity ''7'' 5, BalanceOf USDC, BalanceOf WETH, Slot0,
         BalanceOf USDC, BalanceOf WETH, Mint (- 2000) 2000 50000000000000000 103000000 0 0])"
proof -
  have a: "rebalancePortfolio balancedWallet examplePool = (Inr (), [BalanceOf USDC, BalanceOf WETH])"
    by (simp add: rebalancePortfolio_def balancedWallet_def balanced_dev io_defs Let_def)
  have b: "computeRange 0 10 = (- 2000, 2000)"
    by (simp add: computeRange_def clampNormalize_def floorDiv_def ceilDiv_def
        MIN_TICK_def MAX_TICK_def WIDTH_def Let_def)
  have c: "mintMaxLiquidity mintWithoutEvent examplePool (- 2000) 2000
     = (Inl (TypeError ''Cannot read properties of undefined (reading data)''),
        [BalanceOf USDC, BalanceOf WETH, Mint (- 2000) 2000 50000000000000000 103000000 0 0])"
    by (simp add: mintMaxLiquidity_def mintWithoutEvent_def mintWithEvent_def examplePool_def
        isMintLog_def MINT_EVENT_def io_defs)
  have d: "exitOldPosition (env_exit eventMissing) ''7''
     = (Inr (), [Positions ''7'', DecreaseLiquidity ''7'' 5])"
    by (simp add: exitOldPosition_def eventMissing_def exitFails_def io_defs Let_def)
  have e: "env_wallet eventMissing = balancedWallet" "env_newSlot0 eventMissing = Inr 0"
    "env_mint eventMissing = mintWithoutEvent" "tickSpacing examplePool = 10"
    by (simp_all add: eventMissing_def exitFails_def examplePool_def)
  show ?thesis
    unfolding executeFullRebalance_def d e a
    by (simp add: andThen_def call_def b c)
qed

text \<open>
  Claim C5: when the balances are read, the SDK gives the amounts, the mint is
  submitted and settles with a receipt, and no log of the receipt is the Mint event,
  \<^verbatim>\<open>mintMaxLiquidity\<close> of the modular bot throws its own error \<open>mintEventMissing\<close>,
  which is neither of the two errors of \<^verbatim>\<open>waitWithTimeout\<close>; it returns no identifier,
  it has submitted the mint once and does not submit it again, and it writes no state.
  The monolithic \<^verbatim>\<open>mintMaxLiquidity\<close> has no such check: there the read of the
  missing event's data throws a TypeError, so it returns no identifier either; and
  \<^verbatim>\<open>executeFullRebalance\<close> passes a failure of the mint on without calling
  \<^verbatim>\<open>saveState\<close>, so the state file is as it was.
\<close>

theorem mint_without_event_fails:
  "(fst (getBalance_actions M aenv USDC) = Inr balUSDC \<longrightarrow>
    fst (getBalance_actions M aenv WETH) = Inr balWETH \<longrightarrow>
    positionFromAmounts p tickLower tickUpper balWETH balUSDC = Inr position \<longrightarrow>
    act_mint aenv = Inr tx \<longrightarrow> waitWithTimeout tx = Inr receipt \<longrightarrow>
    find isMintLog receipt = None \<longrightarrow>
      mintMaxLiquidity_actions M aenv p tickLower tickUpper =
        (Inl mintEventMissing,
         snd (getBalance_actions M aenv USDC) @ snd (getBalance_actions M aenv WETH)
         @ [Mint tickLower tickUpper (mintAmount0 position) (mintAmount1 position)
              (slippageAmount0 position) (slippageAmount1 position)])
      \<and> length (filter isMint (snd (mintMaxLiquidity_actions M aenv p tickLower tickUpper))) = 1
      \<and> filter isSaveState (snd (mintMaxLiquidity_actions M aenv p tickLower tickUpper)) = [])
   \<and> mintEventMissing \<noteq> Error ''TIMEOUT''
   \<and> mintEventMissing \<noteq> Error ''Tx dropped or failed''
   \<and> (mint_balUSDC menv = Inr balUSDC \<longrightarrow> mint_balWETH menv = Inr balWETH \<longrightarrow>
       positionFromAmounts p tickLower tickUpper balWETH balUSDC = Inr position \<longrightarrow>
       mint_receipt menv = Inr receipt \<longrightarrow> find isMintLog receipt = None \<longrightarrow>
         mintMaxLiquidity menv p tickLower tickUpper =
           (Inl (TypeError ''Cannot read properties of undefined (reading data)''),
            [BalanceOf USDC, BalanceOf WETH,
             Mint tickLower tickUpper (mintAmount0 position) (mintAmount1 position) 0 0]))
   \<and> (fst (rebalancePortfolio (env_wallet env) p) = Inr () \<longrightarrow> env_newSlot0 env = Inr t \<longrightarrow>
       fst (mintMaxLiquidity (env_mint env) p (fst (computeRange t (tickSpacing p)))
              (snd (computeRange t (tickSpacing p)))) = Inl e \<longrightarrow>
         fst (executeFullRebalance env p old) = Inl e
         \<and> filter isSaveState (snd (executeFullRebalance env p old)) = []
         \<and> fileAfter sf (snd (executeFullRebalance env p old)) = sf)"
proof (intro conjI impI)
  assume u: "fst (getBalance_actions M aenv USDC) = Inr balUSDC"
    and w: "fst (getBalance_actions M aenv WETH) = Inr balWETH"
    and q: "positionFromAmounts p tickLower tickUpper balWETH balUSDC = Inr position"
    and m: "act_mint aenv = Inr tx" and r: "waitWithTimeout tx = Inr receipt"
    and n: "find isMintLog receipt = None"
  show t: "mintMaxLiquidity_actions M aenv p tickLower tickUpper =
        (Inl mintEventMissing,
         snd (getBalance_actions M aenv USDC) @ snd (getBalance_actions M aenv WETH)
         @ [Mint tickLower tickUpper (mintAmount0 position) (mintAmount1 position)
              (slippageAmount0 position) (slippageAmount1 position)])"
    unfolding mintMaxLiquidity_actions_def andThen_ok[OF u] andThen_ok[OF w]
    by (simp add: q m r n io_defs)
  show "length (filter isMint (snd (mintMaxLiquidity_actions M aenv p tickLower tickUpper))) = 1"
    by (simp add: t getBalance_read_only)
  have s: "\<And>tok. filter isSaveState (snd (getBalance_actions M aenv tok)) = []"
    using retrying_trace by (fastforce simp: getBalance_actions_def filter_empty_conv)
  show "filter isSaveState (snd (mintMaxLiquidity_actions M aenv p tickLower tickUpper)) = []"
    by (simp add: t s)
next
  show "mintEventMissing \<noteq> Error ''TIMEOUT''" by (simp add: mintEventMissing_def)
  show "mintEventMissing \<noteq> Error ''Tx dropped or failed''" by (simp add: mintEventMissing_def)
next
  assume "mint_balUSDC menv = Inr balUSDC" "mint_balWETH menv = Inr balWETH"
    "positionFromAmounts p tickLower tickUpper balWETH balUSDC = Inr position"
    "mint_receipt menv = Inr receipt" "find isMintLog receipt = None"
  then show "mintMaxLiquidity menv p tickLower tickUpper =
           (Inl (TypeError ''Cannot read properties of undefined (reading data)''),
            [BalanceOf USDC, BalanceOf WETH,
             Mint tickLower tickUpper (mintAmount0 position) (mintAmount1 position) 0 0])"
    by (simp add: mintMaxLiquidity_def io_defs)
next
  assume "fst (rebalancePortfolio (env_wallet env) p) = Inr ()" "env_newSlot0 env = Inr t"
    "fst (mintMaxLiquidity (env_mint env) p (fst (computeRange t (tickSpacing p)))
              (snd (computeRange t (tickSpacing p)))) = Inl e"
  with executeFullRebalance_phases[of env p e old t]
  show f: "fst (executeFullRebalance env p old) = Inl e" by simp
  show g: "filter isSaveState (snd (executeFullRebalance env p old)) = []"
    using f by (rule executeFullRebalance_failure_no_save)
  show "fileAfter sf (snd (executeFullRebalance env p old)) = sf"
    using g by (rule fileAfter_no_save)
qed

text \<open>
  The theorem on a receipt that holds only a Transfer event: in the modular bot
  (whose balance reads fail once each) and in a full rebalance of the monolithic bot.
\<close>

theorem mint_without_event_fails_witness:
  "mintMaxLiquidity_actions 3 flakyActions examplePool (- 2000) 2000
     = (Inl mintEventMissing,
        [BalanceOf USDC, Sleep 1000, BalanceOf USDC, BalanceOf WETH, Sleep 1000, BalanceOf WETH,
         Mint (- 2000) 2000 50000000000000000 103000000 49750000000000000 102485000])
   \<and> executeFullRebalance eventMissing examplePool ''7''
     = (Inl (TypeError ''Cannot read properties of undefined (reading data)''),
        [Positions ''7'', DecreaseLiquidity ''7'' 5, BalanceOf USDC, BalanceOf WETH, Slot0,
         BalanceOf USDC, BalanceOf WETH, Mint (- 2000) 2000 50000000000000000 103000000 0 0])
   \<and> fileAfter (Stored \<lparr>tokenId = ''7'', lastCheck = 5\<rparr>)
         (snd (executeFullRebalance eventMissing examplePool ''7''))
       = Stored \<lparr>tokenId = ''7'', lastCheck = 5\<rparr>"
proof -
  have a: "fst (rebalancePortfolio (env_wallet eventMissing) examplePool) = Inr ()"
    by (simp add: eventMissing_def exitFails_def rebalancePortfolio_def balancedWallet_def
        balanced_dev io_defs Let_def)
  have b: "env_newSlot0 eventMissing = Inr 0"
    by (simp add: eventMissing_def exitFails_def)
  have c: "fst (mintMaxLiquidity (env_mint eventMissing) examplePool
                  (fst (computeRange 0 (tickSpacing examplePool)))
                  (snd (computeRange 0 (tickSpacing examplePool))))
           = Inl (TypeError ''Cannot read properties of undefined (reading data)'')"
    by (simp add: mintMaxLiquidity_def eventMissing_def mintWithoutEvent_def mintWithEvent_def
        examplePool_def isMintLog_def MINT_EVENT_def io_defs)
  note t = mint_without_event_fails[of 3 flakyActions 103000000 50000000000000000 examplePool
      "- 2000" 2000 _ _ _ _ eventMissing 0
      "TypeError ''Cannot read properties of undefined (reading data)''" "''7''"
      "Stored \<lparr>tokenId = ''7'', lastCheck = 5\<rparr>"]
  from t a b c have "fileAfter (Stored \<lparr>tokenId = ''7'', lastCheck = 5\<rparr>)
         (snd (executeFullRebalance eventMissing examplePool ''7''))
       = Stored \<lparr>tokenId = ''7'', lastCheck = 5\<rparr>" by blast
  then show ?thesis using flaky_mint eventMissing_run by simp
qed

subsection \<open>Failures inside the full rebalance\<close>

lemma atomicExitPosition_rethrows:
  assumes "fst (retrying M (Positions exitId) (act_positions aenv)) = Inr pos"
  shows "act_multicall aenv = Inl e \<Longrightarrow> fst (atomicExitPosition M aenv exitId) = Inl e"
    and "act_multicall aenv = Inr tx \<Longrightarrow> waitWithTimeout tx = Inl e
         \<Longrightarrow> fst (atomicExitPosition M aenv exitId) = Inl e"
  unfolding atomicExitPosition_def andThen_ok[OF assms]
  by (simp_all add: io_defs Let_def)

text \<open>
  Claim C2 fails as it is stated for the first phase: the exit of
  \<^verbatim>\<open>executeFullRebalance\<close> runs inside a \<^verbatim>\<open>try\<close> whose handler logs a warning and
  returns.  Here \<^verbatim>\<open>decreaseLiquidity\<close> of position 7 fails; the rebalance, the tick
  read and the mint run all the same, no error reaches the caller, and the state file
  changes from 7 to 8.
\<close>

theorem full_rebalance_exit_counterexample:
  "exit_decreaseLiquidity (env_exit exitFails) = Inl (Error ''execution reverted'')
   \<and> executeFullRebalance exitFails examplePool ''7''
     = (Inr (),
        [Positions ''7'', DecreaseLiquidity ''7'' 5, BalanceOf USDC, BalanceOf WETH, Slot0,
         BalanceOf USDC, BalanceOf WETH, Mint (- 2000) 2000 50000000000000000 103000000 0 0,
         SaveState ''8'' 1700000000000])
   \<and> fileAfter (Stored \<lparr>tokenId = ''7'', lastCheck = 5\<rparr>)
         (snd (executeFullRebalance exitFails examplePool ''7''))
       = Stored \<lparr>tokenId = ''8'', lastCheck = 1700000000000\<rparr>"
proof -
  have a: "rebalancePortfolio balancedWallet examplePool = (Inr (), [BalanceOf USDC, BalanceOf WETH])"
    by (simp add: rebalancePortfolio_def balancedWallet_def balanced_dev io_defs Let_def)
  have b: "computeRange 0 10 = (- 2000, 2000)"
    by (simp add: computeRange_def clampNormalize_def floorDiv_def ceilDiv_def
        MIN_TICK_def MAX_TICK_def WIDTH_def Let_def)
  have c: "mintMaxLiquidity mintWithEvent examplePool (- 2000) 2000
     = (Inr ''8'',
        [BalanceOf USDC, BalanceOf WETH, Mint (- 2000) 2000 50000000000000000 103000000 0 0])"
    by (simp add: mintMaxLiquidity_def mintWithEvent_def examplePool_def decodeUint256_def
        isMintLog_def MINT_EVENT_def io_defs showNat_digit)
  have d: "exitOldPosition (env_exit exitFails) ''7''
     = (Inr (), [Positions ''7'', DecreaseLiquidity ''7'' 5])"
    by (simp add: exitOldPosition_def exitFails_def io_defs Let_def)
  have e: "env_wallet exitFails = balancedWallet" "env_newSlot0 exitFails = Inr 0"
    "env_mint exitFails = mintWithEvent" "tickSpacing examplePool = 10"
    "env_now exitFails = 1700000000000"
    by (simp_all add: exitFails_def examplePool_def)
  have r: "executeFullRebalance exitFails examplePool ''7''
     = (Inr (),
        [Positions ''7'', DecreaseLiquidity ''7'' 5, BalanceOf USDC, BalanceOf WETH, Slot0,
         BalanceOf USDC, BalanceOf WETH, Mint (- 2000) 2000 50000000000000000 103000000 0 0,
         SaveState ''8'' 1700000000000])"
    unfolding executeFullRebalance_def d e a
    by (simp add: andThen_def call_def saveState_def b c)
  show ?thesis unfolding r by (simp add: exitFails_def)
qed

text \<open>
  Claim C2, amended: in every invocation of \<^verbatim>\<open>executeFullRebalance\<close>, a failure of
  the rebalance, of the fresh tick read of the range computation or of the mint ends
  the invocation with that error: the calls issued are those of the exit, of the
  rebalance and of the phases up to the failing one, none of them a \<^verbatim>\<open>saveState\<close>, so
  the state file is unchanged; \<^verbatim>\<open>saveState\<close> is called only as the last call after a
  mint that returned an identifier.  The exit phase itself never fails the invocation:
  its errors are caught and the invocation goes on with the rebalance.
  \<^verbatim>\<open>atomicExitPosition\<close> of the modular bot, once it has read the position, throws a
  failure of its multicall or of the wait for it again.
\<close>

theorem full_rebalance_failure_aborts:
  "fst (exitOldPosition (env_exit env) old) = Inr ()
   \<and> (fst (rebalancePortfolio (env_wallet env) p) = Inl e \<longrightarrow>
      executeFullRebalance env p old =
        (Inl e, snd (exitOldPosition (env_exit env) old)
                @ snd (rebalancePortfolio (env_wallet env) p)))
   \<and> (fst (rebalancePortfolio (env_wallet env) p) = Inr () \<longrightarrow> env_newSlot0 env = Inl e \<longrightarrow>
      executeFullRebalance env p old =
        (Inl e, snd (exitOldPosition (env_exit env) old)
                @ snd (rebalancePortfolio (env_wallet env) p) @ [Slot0]))
   \<and> (fst (rebalancePortfolio (env_wallet env) p) = Inr () \<longrightarrow> env_newSlot0 env = Inr t \<longrightarrow>
      fst (mintMaxLiquidity (env_mint env) p (fst (computeRange t (tickSpacing p)))
             (snd (computeRange t (tickSpacing p)))) = Inl e \<longrightarrow>
      executeFullRebalance env p old =
        (Inl e, snd (exitOldPosition (env_exit env) old)
                @ snd (rebalancePortfolio (env_wallet env) p) @ [Slot0]
                @ snd (mintMaxLiquidity (env_mint env) p (fst (computeRange t (tickSpacing p)))
                         (snd (computeRange t (tickSpacing p))))))
   \<and> (fst (rebalancePortfolio (env_wallet env) p) = Inr () \<longrightarrow> env_newSlot0 env = Inr t \<longrightarrow>
      fst (mintMaxLiquidity (env_mint env) p (fst (computeRange t (tickSpacing p)))
             (snd (computeRange t (tickSpacing p)))) = Inr newId \<longrightarrow>
      executeFullRebalance env p old =
        (Inr (), snd (exitOldPosition (env_exit env) old)
                @ snd (rebalancePortfolio (env_wallet env) p) @ [Slot0]
                @ snd (mintMaxLiquidity (env_mint env) p (fst (computeRange t (tickSpacing p)))
                         (snd (computeRange t (tickSpacing p))))
                @ [SaveState newId (env_now env)]))
   \<and> filter isSaveState
        (snd (exitOldPosition (env_exit env) old) @ snd (rebalancePortfolio (env_wallet env) p)
         @ [Slot0]
         @ snd (mintMaxLiquidity (env_mint env) p (fst (computeRange t (tickSpacing p)))
                  (snd (computeRange t (tickSpacing p))))) = []
   \<and> (fst (executeFullRebalance env p old) = Inl e \<longrightarrow>
        filter isSaveState (snd (executeFullRebalance env p old)) = []
        \<and> fileAfter sf (snd (executeFullRebalance env p old)) = sf)
   \<and> (fst (retrying M (Positions exitId) (act_positions aenv)) = Inr pos \<longrightarrow>
        act_multicall aenv = Inl e \<longrightarrow> fst (atomicExitPosition M aenv exitId) = Inl e)
   \<and> (fst (retrying M (Positions exitId) (act_positions aenv)) = Inr pos \<longrightarrow>
        act_multicall aenv = Inr tx \<longrightarrow> waitWithTimeout tx = Inl e \<longrightarrow>
        fst (atomicExitPosition M aenv exitId) = Inl e)"
proof -
  note ph = executeFullRebalance_phases[of env p e old t newId]
  have s: "filter isSaveState
        (snd (exitOldPosition (env_exit env) old) @ snd (rebalancePortfolio (env_wallet env) p)
         @ [Slot0]
         @ snd (mintMaxLiquidity (env_mint env) p (fst (computeRange t (tickSpacing p)))
                  (snd (computeRange t (tickSpacing p))))) = []"
    by (simp add: exitOldPosition_no_save rebalancePortfolio_no_save mintMaxLiquidity_no_save)
  have f: "fst (executeFullRebalance env p old) = Inl e \<longrightarrow>
        filter isSaveState (snd (executeFullRebalance env p old)) = []
        \<and> fileAfter sf (snd (executeFullRebalance env p old)) = sf"
    using executeFullRebalance_failure_no_save[of env p old e] fileAfter_no_save by blast
  have x: "fst (retrying M (Positions exitId) (act_positions aenv)) = Inr pos \<longrightarrow>
        act_multicall aenv = Inl e \<longrightarrow> fst (atomicExitPosition M aenv exitId) = Inl e"
    "fst (retrying M (Positions exitId) (act_positions aenv)) = Inr pos \<longrightarrow>
        act_multicall aenv = Inr tx \<longrightarrow> waitWithTimeout tx = Inl e \<longrightarrow>
        fst (atomicExitPosition M aenv exitId) = Inl e"
    using atomicExitPosition_rethrows by blast+
  show ?thesis
    by (intro conjI exitOldPosition_returns s f x) (use ph in blast)+
qed

text \<open>
  The theorem on an invocation whose fresh tick read fails after a failed exit and a
  rebalance below the threshold: no mint, no save, the state file still holds 7; and
  on an \<^verbatim>\<open>atomicExitPosition\<close> whose multicall is rejected.
\<close>

theorem full_rebalance_failure_aborts_witness:
  "executeFullRebalance (exitFails\<lparr>env_newSlot0 := Inl (Error ''rpc down'')\<rparr>) examplePool ''7''
     = (Inl (Error ''rpc down''),
        [Positions ''7'', DecreaseLiquidity ''7'' 5, BalanceOf USDC, BalanceOf WETH, Slot0])
   \<and> fileAfter (Stored \<lparr>tokenId = ''7'', lastCheck = 5\<rparr>)
        (snd (executeFullRebalance (exitFails\<lparr>env_newSlot0 := Inl (Error ''rpc down'')\<rparr>)
                examplePool ''7''))
       = Stored \<lparr>tokenId = ''7'', lastCheck = 5\<rparr>
   \<and> fst (atomicExitPosition 3 flakyActions ''7'') = Inl (Error ''execution reverted'')"
proof -
  let ?env = "exitFails\<lparr>env_newSlot0 := Inl (Error ''rpc down'')\<rparr>"
  have a: "rebalancePortfolio (env_wallet ?env) examplePool
             = (Inr (), [BalanceOf USDC, BalanceOf WETH])"
    by (simp add: exitFails_def rebalancePortfolio_def balancedWallet_def balanced_dev io_defs
        Let_def)
  have b: "env_newSlot0 ?env = Inl (Error ''rpc down'')" by simp
  have d: "exitOldPosition (env_exit ?env) ''7''
     = (Inr (), [Positions ''7'', DecreaseLiquidity ''7'' 5])"
    by (simp add: exitOldPosition_def exitFails_def io_defs Let_def)
  have g: "fst (retrying 3 (Positions ''7'') (act_positions flakyActions))
             = Inr \<lparr>pos_liquidity = 5, pos_tickLower = 100, pos_tickUpper = 200\<rparr>"
    by (simp add: retrying_def flakyActions_def scripted_def withRetry_numeral Let_def)
  have h: "act_multicall flakyActions = Inl (Error ''execution reverted'')"
    by (simp add: flakyActions_def)
  note t = full_rebalance_failure_aborts[of ?env "''7''" examplePool "Error ''rpc down''" _ _
      "Stored \<lparr>tokenId = ''7'', lastCheck = 5\<rparr>"]
  note u = full_rebalance_failure_aborts[of ?env "''7''" examplePool "Error ''execution reverted''"
      _ _ _ 3 "''7''" flakyActions
      "\<lparr>pos_liquidity = 5, pos_tickLower = 100, pos_tickUpper = 200\<rparr>"]
  from t a b have r: "executeFullRebalance ?env examplePool ''7'' =
      (Inl (Error ''rpc down''),
       snd (exitOldPosition (env_exit ?env) ''7'')
       @ snd (rebalancePortfolio (env_wallet ?env) examplePool) @ [Slot0])"
    by (metis fst_conv)
  from t r have f: "fileAfter (Stored \<lparr>tokenId = ''7'', lastCheck = 5\<rparr>)
        (snd (executeFullRebalance ?env examplePool ''7''))
       = Stored \<lparr>tokenId = ''7'', lastCheck = 5\<rparr>"
    by (metis fst_conv)
  from u g h have x: "fst (atomicExitPosition 3 flakyActions ''7'') = Inl (Error ''execution reverted'')"
    by blast
  show ?thesis using f x unfolding r a d by simp
qed

subsection \<open>Recovery of an orphaned position\<close>

lemma showNat_nonempty: "showNat n \<noteq> []"
  by (subst showNat.simps) simp

lemma digit_zero_iff: "n < 10 \<Longrightarrow> (''0123456789'' ! n = CHR ''0'') \<longleftrightarrow> n = 0"
  by (auto simp: eval_nat_numeral less_Suc_eq)

lemma showNat_zero_iff: "showNat n = ''0'' \<longleftrightarrow> n = 0"
proof (cases "n < 10")
  case True
  then show ?thesis by (simp add: showNat_digit digit_zero_iff)
next
  case False
  have "length (showNat n) \<ge> 2"
    using False showNat_nonempty[of "n div 10"]
    by (simp add: showNat_step Suc_le_eq)
  moreover have "n \<noteq> 0" using False by simp
  ultimately show ?thesis by auto
qed

lemma checkAndApprove_no_position_action:
  "filter positionAction (snd (checkAndApprove env tok sp)) = []"
  by (auto simp: checkAndApprove_def io_defs split: sum.splits prod.splits)

lemma andThen_pair_ok: "andThen (Inr v, tr) f = (fst (f v), tr @ snd (f v))"
  by (simp add: andThen_ok)

lemma andThen_filter:
  assumes "filter P (snd m) = []" and "\<And>v. filter P (snd (f v)) = []"
  shows "filter P (snd (andThen m f)) = []"
proof (cases m)
  case (Pair r tr)
  then show ?thesis
  proof (cases r)
    case (Inl e)
    with Pair assms(1) show ?thesis by (simp add: andThen_def)
  next
    case (Inr v)
    with Pair assms(1) assms(2)[of v] show ?thesis
      by (cases "f v") (simp add: andThen_def)
  qed
qed

lemma approveAll_no_position_action:
  "filter positionAction (snd (approveAll env)) = []"
  unfolding approveAll_def
  by (intro andThen_filter checkAndApprove_no_position_action)

lemma findOrphanedPosition_no_position_action:
  "filter positionAction (snd (findOrphanedPosition env)) = []"
  by (auto simp: findOrphanedPosition_def io_defs Let_def split: sum.splits prod.splits)

lemma orphanCycle_parts:
  "approveAll (cyc_approve orphanCycle)
     = (Inr (), [Allowance USDC NPM, Approve USDC NPM, Allowance WETH NPM,
                 Allowance USDC ROUTER, Allowance WETH ROUTER])"
  "findOrphanedPosition (cyc_orphan orphanCycle)
     = (Inr ''42'', [NpmBalanceOf, TokenOfOwnerByIndex 1])"
  "executeFullRebalance (cyc_rebalance orphanCycle) ((cyc_pool orphanCycle)\<lparr>tickCurrent := 0\<rparr>) ''0''
     = (Inr (),
        [BalanceOf USDC, BalanceOf WETH, Slot0, BalanceOf USDC, BalanceOf WETH,
         Mint (- 2000) 2000 50000000000000000 103000000 0 0, SaveState ''8'' 1700000000000])"
proof -
  show "approveAll (cyc_approve orphanCycle)
     = (Inr (), [Allowance USDC NPM, Approve USDC NPM, Allowance WETH NPM,
                 Allowance USDC ROUTER, Allowance WETH ROUTER])"
    by (simp add: approveAll_def checkAndApprove_def orphanCycle_def io_defs)
  show "findOrphanedPosition (cyc_orphan orphanCycle)
     = (Inr ''42'', [NpmBalanceOf, TokenOfOwnerByIndex 1])"
    by (simp add: findOrphanedPosition_def orphanCycle_def io_defs Let_def showNat_digit
        showNat_step)
  have p: "(cyc_pool orphanCycle)\<lparr>tickCurrent := 0\<rparr> = examplePool"
    by (simp add: orphanCycle_def examplePool_def)
  have a: "rebalancePortfolio balancedWallet examplePool = (Inr (), [BalanceOf USDC, BalanceOf WETH])"
    by (simp add: rebalancePortfolio_def balancedWallet_def balanced_dev io_defs Let_def)
  have b: "computeRange 0 10 = (- 2000, 2000)"
    by (simp add: computeRange_def clampNormalize_def floorDiv_def ceilDiv_def
        MIN_TICK_def MAX_TICK_def WIDTH_def Let_def)
  have c: "mintMaxLiquidity mintWithEvent examplePool (- 2000) 2000
     = (Inr ''8'',
        [BalanceOf USDC, BalanceOf WETH, Mint (- 2000) 2000 50000000000000000 103000000 0 0])"
    by (simp add: mintMaxLiquidity_def mintWithEvent_def examplePool_def decodeUint256_def
        isMintLog_def MINT_EVENT_def io_defs showNat_digit)
  have d: "exitOldPosition (env_exit exitFails) ''0'' = (Inr (), [])"
    by (simp add: exitOldPosition_def io_defs)
  have e: "env_wallet exitFails = balancedWallet" "env_newSlot0 exitFails = Inr 0"
    "env_mint exitFails = mintWithEvent" "tickSpacing examplePool = 10"
    "env_now exitFails = 1700000000000" "cyc_rebalance orphanCycle = exitFails"
    by (simp_all add: exitFails_def examplePool_def orphanCycle_def)
  show "executeFullRebalance (cyc_rebalance orphanCycle)
          ((cyc_pool orphanCycle)\<lparr>tickCurrent := 0\<rparr>) ''0''
     = (Inr (),
        [BalanceOf USDC, BalanceOf WETH, Slot0, BalanceOf USDC, BalanceOf WETH,
         Mint (- 2000) 2000 50000000000000000 103000000 0 0, SaveState ''8'' 1700000000000])"
    unfolding p e executeFullRebalance_def d a
    by (simp add: andThen_def call_def saveState_def b c)
qed

lemma orphanCycle_trace:
  "snd (runLifeCycle orphanCycle Missing)
     = [GetNetwork, Allowance USDC NPM, Approve USDC NPM, Allowance WETH NPM,
        Allowance USDC ROUTER, Allowance WETH ROUTER, Slot0, Liquidity,
        NpmBalanceOf, TokenOfOwnerByIndex 1, SaveState ''42'' 1699999999000,
        BalanceOf USDC, BalanceOf WETH, Slot0, BalanceOf USDC, BalanceOf WETH,
        Mint (- 2000) 2000 50000000000000000 103000000 0 0, SaveState ''8'' 1700000000000]"
proof -
  have a: "cyc_getNetwork orphanCycle = Inr ()" "cyc_slot0 orphanCycle = Inr 0"
    "cyc_liquidity orphanCycle = Inr 1000" "cyc_now orphanCycle = 1699999999000"
    by (simp_all add: orphanCycle_def)
  show ?thesis
    unfolding runLifeCycle_def a orphanCycle_parts(1) 
    by (simp add: andThen_def call_def promiseAll2_def loadState_def saveState_def returns_def
        Let_def orphanCycle_parts(2,3))
qed

text \<open>
  Claim C4 fails as it is stated (the save comes before any mutating ledger action):
  \<^verbatim>\<open>runLifeCycle\<close> calls \<^verbatim>\<open>approveAll\<close> before it loads the state, and an allowance
  of zero makes it submit an \<^verbatim>\<open>approve\<close> transaction.  Here the account owns the tokens
  41 and 42 and the USDC allowance of the position manager is zero: the approval is
  submitted before the save of 42.
\<close>

theorem orphan_recovery_counterexample:
  "tokenId (loadState Missing) = ''0''
   \<and> snd (runLifeCycle orphanCycle Missing)
     = [GetNetwork, Allowance USDC NPM, Approve USDC NPM, Allowance WETH NPM,
        Allowance USDC ROUTER, Allowance WETH ROUTER, Slot0, Liquidity,
        NpmBalanceOf, TokenOfOwnerByIndex 1, SaveState ''42'' 1699999999000,
        BalanceOf USDC, BalanceOf WETH, Slot0, BalanceOf USDC, BalanceOf WETH,
        Mint (- 2000) 2000 50000000000000000 103000000 0 0, SaveState ''8'' 1700000000000]
   \<and> mutating (Approve USDC NPM)"
  by (simp add: orphanCycle_trace loadState_def)

text \<open>
  Claim C4, amended: when the account owns \<open>n \<ge> 1\<close> position tokens,
  \<^verbatim>\<open>findOrphanedPosition\<close> returns the decimal identifier of the token at enumeration
  index \<open>n - 1\<close>, and when it owns none it returns \<open>0\<close>; the identifier of a token
  is \<open>0\<close> only for the token number 0.  When the state file holds \<open>0\<close> (or is
  missing or unreadable) and the recovered identifier is not \<open>0\<close>, \<^verbatim>\<open>runLifeCycle\<close>
  saves it before any exit, swap or mint of that evaluation: the calls before the save
  are the network query, the allowance reads and approvals of \<^verbatim>\<open>approveAll\<close>, the pool
  reads and the two ownership reads; the calls after it are those of
  \<^verbatim>\<open>executeFullRebalance\<close> for no old position.
\<close>

theorem orphan_recovery:
  "(npmBalanceOf_r oenv = Inr (length owned) \<longrightarrow> owned \<noteq> [] \<longrightarrow>
      tokenOfOwnerByIndex_r oenv (length owned - 1) = Inr (owned ! (length owned - 1)) \<longrightarrow>
      findOrphanedPosition oenv
        = (Inr (showNat (owned ! (length owned - 1))),
           [NpmBalanceOf, TokenOfOwnerByIndex (length owned - 1)]))
   \<and> (npmBalanceOf_r oenv = Inr 0 \<longrightarrow> findOrphanedPosition oenv = (Inr ''0'', [NpmBalanceOf]))
   \<and> (showNat n = ''0'' \<longleftrightarrow> n = 0)
   \<and> (tokenId (loadState sf) = ''0'' \<longrightarrow> cyc_getNetwork env = Inr () \<longrightarrow>
      fst (approveAll (cyc_approve env)) = Inr () \<longrightarrow>
      cyc_slot0 env = Inr t \<longrightarrow> cyc_liquidity env = Inr l \<longrightarrow>
      fst (findOrphanedPosition (cyc_orphan env)) = Inr recoveredId \<longrightarrow> recoveredId \<noteq> ''0'' \<longrightarrow>
        snd (runLifeCycle env sf)
          = ([GetNetwork] @ snd (approveAll (cyc_approve env)) @ [Slot0, Liquidity]
             @ snd (findOrphanedPosition (cyc_orphan env)))
            @ [SaveState recoveredId (cyc_now env)]
            @ snd (executeFullRebalance (cyc_rebalance env)
                     ((cyc_pool env)\<lparr>tickCurrent := t\<rparr>) ''0'')
        \<and> filter positionAction
             ([GetNetwork] @ snd (approveAll (cyc_approve env)) @ [Slot0, Liquidity]
              @ snd (findOrphanedPosition (cyc_orphan env))) = [])"
proof (intro conjI impI)
  assume "npmBalanceOf_r oenv = Inr (length owned)" "owned \<noteq> []"
    "tokenOfOwnerByIndex_r oenv (length owned - 1) = Inr (owned ! (length owned - 1))"
  then show "findOrphanedPosition oenv
        = (Inr (showNat (owned ! (length owned - 1))),
           [NpmBalanceOf, TokenOfOwnerByIndex (length owned - 1)])"
    by (simp add: findOrphanedPosition_def io_defs Let_def)
next
  assume "npmBalanceOf_r oenv = Inr 0"
  then show "findOrphanedPosition oenv = (Inr ''0'', [NpmBalanceOf])"
    by (simp add: findOrphanedPosition_def io_defs)
next
  show "showNat n = ''0'' \<longleftrightarrow> n = 0" by (rule showNat_zero_iff)
next
  assume a: "tokenId (loadState sf) = ''0''" "cyc_getNetwork env = Inr ()"
    "cyc_slot0 env = Inr t" "cyc_liquidity env = Inr l" "recoveredId \<noteq> ''0''"
    and ap: "fst (approveAll (cyc_approve env)) = Inr ()"
    and fo: "fst (findOrphanedPosition (cyc_orphan env)) = Inr recoveredId"
  have n: "call GetNetwork (cyc_getNetwork env) = (Inr (), [GetNetwork])"
    by (simp add: call_def a)
  have pa: "promiseAll2 (call Slot0 (cyc_slot0 env)) (call Liquidity (cyc_liquidity env))
              = (Inr (t, l), [Slot0, Liquidity])"
    by (simp add: promiseAll2_def call_def a)
  show "snd (runLifeCycle env sf)
          = ([GetNetwork] @ snd (approveAll (cyc_approve env)) @ [Slot0, Liquidity]
             @ snd (findOrphanedPosition (cyc_orphan env)))
            @ [SaveState recoveredId (cyc_now env)]
            @ snd (executeFullRebalance (cyc_rebalance env)
                     ((cyc_pool env)\<lparr>tickCurrent := t\<rparr>) ''0'')"
    unfolding runLifeCycle_def n pa
    by (simp add: andThen_ok[OF ap] andThen_ok[OF fo] andThen_pair_ok a Let_def
        saveState_def call_def)
  show "filter positionAction
             ([GetNetwork] @ snd (approveAll (cyc_approve env)) @ [Slot0, Liquidity]
              @ snd (findOrphanedPosition (cyc_orphan env))) = []"
    by (simp add: approveAll_no_position_action findOrphanedPosition_no_position_action)
qed

text \<open>
  The theorem on the account that owns the tokens 41 and 42: 42 is recovered and
  saved before the first balance-moving call, the mint.
\<close>

theorem orphan_recovery_witness:
  "findOrphanedPosition (cyc_orphan orphanCycle)
     = (Inr ''42'', [NpmBalanceOf, TokenOfOwnerByIndex 1])
   \<and> snd (runLifeCycle orphanCycle Missing)
     = [GetNetwork, Allowance USDC NPM, Approve USDC NPM, Allowance WETH NPM,
        Allowance USDC ROUTER, Allowance WETH ROUTER, Slot0, Liquidity,
        NpmBalanceOf, TokenOfOwnerByIndex 1]
       @ [SaveState ''42'' 1699999999000]
       @ [BalanceOf USDC, BalanceOf WETH, Slot0, BalanceOf USDC, BalanceOf WETH,
          Mint (- 2000) 2000 50000000000000000 103000000 0 0, SaveState ''8'' 1700000000000]
   \<and> filter positionAction
        [GetNetwork, Allowance USDC NPM, Approve USDC NPM, Allowance WETH NPM,
         Allowance USDC ROUTER, Allowance WETH ROUTER, Slot0, Liquidity,
         NpmBalanceOf, TokenOfOwnerByIndex 1] = []"
proof -
  have o: "npmBalanceOf_r (cyc_orphan orphanCycle) = Inr (length [41, 42 :: nat])"
    "[41, 42 :: nat] \<noteq> []"
    "tokenOfOwnerByIndex_r (cyc_orphan orphanCycle) (length [41, 42 :: nat] - 1)
       = Inr ([41, 42] ! (length [41, 42 :: nat] - 1))"
    by (simp_all add: orphanCycle_def)
  have a: "tokenId (loadState Missing) = ''0''" "cyc_getNetwork orphanCycle = Inr ()"
    "fst (approveAll (cyc_approve orphanCycle)) = Inr ()"
    "cyc_slot0 orphanCycle = Inr 0" "cyc_liquidity orphanCycle = Inr 1000"
    "fst (findOrphanedPosition (cyc_orphan orphanCycle)) = Inr ''42''" "''42'' \<noteq> ''0''"
    by (simp_all add: loadState_def orphanCycle_parts) (simp_all add: orphanCycle_def)
  note t = orphan_recovery[of "cyc_orphan orphanCycle" "[41, 42]" 42 Missing orphanCycle 0 1000
      "''42''"]
  from t o have f: "findOrphanedPosition (cyc_orphan orphanCycle)
        = (Inr (showNat ([41, 42] ! (length [41, 42 :: nat] - 1))),
           [NpmBalanceOf, TokenOfOwnerByIndex (length [41, 42 :: nat] - 1)])"
    by blast
  from t a have g: "snd (runLifeCycle orphanCycle Missing)
          = ([GetNetwork] @ snd (approveAll (cyc_approve orphanCycle)) @ [Slot0, Liquidity]
             @ snd (findOrphanedPosition (cyc_orphan orphanCycle)))
            @ [SaveState ''42'' (cyc_now orphanCycle)]
            @ snd (executeFullRebalance (cyc_rebalance orphanCycle)
                     ((cyc_pool orphanCycle)\<lparr>tickCurrent := 0\<rparr>) ''0'')"
    "filter positionAction
             ([GetNetwork] @ snd (approveAll (cyc_approve orphanCycle)) @ [Slot0, Liquidity]
              @ snd (findOrphanedPosition (cyc_orphan orphanCycle))) = []"
    by blast+
  have n: "cyc_now orphanCycle = 1699999999000" by (simp add: orphanCycle_def)
  show ?thesis
    using f g unfolding orphanCycle_parts n by (simp add: showNat_digit showNat_step)
qed

end
